theory Spec2Isabelle
  imports Complex_Main "HOL-Library.AList"
begin

section \<open>Daily scoring and streak engine (backend/services/scoring.js)\<close>

text \<open>
  The development embeds the scoring service of the productivity tracker: the three metric
  calculators, \<open>recalculateDailyScore\<close> (the spec's composeDailyScore) and
  \<open>recalculateStreaksForward\<close> (the spec's reconcileStreaksForward), together with the
  route handler that toggles a rest day.

  Conventions of the model.
  \<^item> A calendar day \<open>YYYY-MM-DD\<close> is its day number (an \<open>int\<close>); the previous day is
    \<open>d - 1\<close>, the next day \<open>d + 1\<close>, and the order of the ISO strings is the order of the
    numbers.
  \<^item> A JavaScript number is the \<open>real\<close> that the double denotes. Every arithmetic
    operation and every decimal literal rounds its exact value to a double; the rounding
    function, the implementation of \<open>Math.log2\<close> and the \<open>SUM\<close> of SQLite over a
    \<open>REAL\<close> column are parameters of the model (record \<open>arith\<close>), and the theorems
    hold for every choice of them. Integers are exact. Overflow, \<open>NaN\<close> and division by
    zero are left out: the code divides by 60, 100, 365 and by a positive count only.
    \<open>Math.round x\<close> is \<open>\<lfloor>x + 1/2\<rfloor>\<close>, which JavaScript computes exactly.
  \<^item> A table with a \<open>UNIQUE\<close> date column is an association list from the date to the
    other columns. The bookkeeping columns \<open>id\<close>, \<open>created_at\<close> and \<open>updated_at\<close>
    (wall-clock time) are left out.
  \<^item> A rejected promise is the value \<open>Inl DbError\<close>. Which statements of the database
    fail is given by an oracle over statement labels; inside one call of either operation
    every label is executed at most once.
\<close>

subsection \<open>Numbers\<close>

record arith =
  rnd :: "real \<Rightarrow> real"
  Math_log2 :: "real \<Rightarrow> real"
  sql_sum :: "real list \<Rightarrow> real"

text \<open>
  The operators \<open>*\<close>, \<open>+\<close>, \<open>-\<close>, \<open>/\<close> of JavaScript on numbers, and a decimal
  literal such as \<open>0.45\<close>: the exact result, rounded.
\<close>

definition js_mul :: "arith \<Rightarrow> real \<Rightarrow> real \<Rightarrow> real" where
  "js_mul ar x y = rnd ar (x * y)"

definition js_add :: "arith \<Rightarrow> real \<Rightarrow> real \<Rightarrow> real" where
  "js_add ar x y = rnd ar (x + y)"

definition js_sub :: "arith \<Rightarrow> real \<Rightarrow> real \<Rightarrow> real" where
  "js_sub ar x y = rnd ar (x - y)"

definition js_div :: "arith \<Rightarrow> real \<Rightarrow> real \<Rightarrow> real" where
  "js_div ar x y = rnd ar (x / y)"

definition js_lit :: "arith \<Rightarrow> real \<Rightarrow> real" where
  "js_lit ar x = rnd ar x"

definition Math_round :: "real \<Rightarrow> int" where
  "Math_round x = \<lfloor>x + 1 / 2\<rfloor>"

text \<open>
  The arithmetic in which no operation rounds. The examples are evaluated in it: on their
  data (the counts 0 and 1, the weight 1, the components 0 and 100) the doubles of the code
  are the values it gives, \<open>100 * 0.45\<close> being rounded to 45 and the bonus of a streak of
  one or two days being 1.
\<close>

definition exact_arith :: arith where
  "exact_arith = \<lparr>rnd = (\<lambda>x. x), Math_log2 = log 2, sql_sum = sum_list\<rparr>"

subsection \<open>Tables\<close>

type_synonym date = int

record task =
  target_date :: date
  is_assigned :: bool
  is_done :: bool

record habit_completion =
  habit_id :: nat
  completion_date :: date
  weight_at_completion :: real

datatype log_type = productive | distracting

record time_log =
  type :: log_type
  date_logged_for :: date
  duration_minutes :: int

text \<open>
  The columns that \<open>recalculateDailyScore\<close> computes, and that make up the object
  \<open>scoreDataForDb\<close> it returns (next to the date).
\<close>

record score_columns =
  habit_score_component :: real
  task_score_component :: real
  time_score_component :: real
  streak_bonus_component :: real
  total_daily_score :: real
  is_manually_marked_rest_day :: int

text \<open>
  A row of \<open>DailyScores\<close>. The \<open>notes\<close> column (\<open>notes TEXT DEFAULT ''\<close>) is
  written by \<open>PUT /api/daily-notes/:date\<close> only; a row inserted without it holds the
  empty string.
\<close>

record DailyScores_row = score_columns +
  notes_column :: "string option"

text \<open>The labels of the SQL statements of the service and of the rest-day route.\<close>

datatype stmt =
    SelectRestDay date
  | CountCompleted date
  | CountAssigned date
  | SumHabitWeights date
  | SumTimeLogs date
  | SelectStreak date
  | UpsertDailyScore date
  | UpsertStreak date
  | SelectMaxDate
  | SelectDailyScore date
  | UpdateBonus date
  | UpsertRestDay date

datatype error = DbError

type_synonym faults = "stmt \<Rightarrow> bool"

definition no_faults :: faults where
  "no_faults = (\<lambda>_. False)"

definition fail_only :: "stmt \<Rightarrow> faults" where
  "fail_only s = (\<lambda>t. t = s)"

text \<open>
  The database. \<open>journal\<close> is a ghost field: the labels of the statements that \<open>runDb\<close>
  has executed successfully, in order.
\<close>

record db =
  Tasks :: "task list"
  HabitCompletions :: "habit_completion list"
  TimeLogs :: "time_log list"
  DailyScores :: "(date \<times> DailyScores_row) list"
  StreakData :: "(date \<times> int) list"
  journal :: "stmt list"

text \<open>
  The column defaults of \<open>DailyScores\<close> (\<open>DEFAULT 0\<close>, \<open>DEFAULT FALSE\<close>,
  \<open>DEFAULT ''\<close>).
\<close>

definition default_row :: DailyScores_row where
  "default_row =
     \<lparr>habit_score_component = 0, task_score_component = 0, time_score_component = 0,
      streak_bonus_component = 0, total_daily_score = 0, is_manually_marked_rest_day = 0,
      notes_column = Some []\<rparr>"

subsection \<open>The promise wrappers getDb and runDb\<close>

text \<open>
  \<open>getDb\<close> resolves to the row the query finds (its last argument) or rejects;
  \<open>runDb\<close> applies the statement to the database or rejects and leaves it as it was.
\<close>

definition getDb :: "faults \<Rightarrow> stmt \<Rightarrow> 'a \<Rightarrow> error + 'a" where
  "getDb flt s row = (if flt s then Inl DbError else Inr row)"

definition runDb :: "faults \<Rightarrow> stmt \<Rightarrow> (db \<Rightarrow> db) \<Rightarrow> db \<Rightarrow> (error + unit) \<times> db" where
  "runDb flt s upd d =
     (if flt s then (Inl DbError, d)
      else (Inr (), (upd d)\<lparr>journal := journal d @ [s]\<rparr>))"

subsection \<open>Metric calculators\<close>

text \<open>The two \<open>COUNT(*)\<close> queries of \<open>calculateTaskScore\<close>.\<close>

definition completedSql :: "date \<Rightarrow> db \<Rightarrow> int" where
  "completedSql d s = int (length (filter (\<lambda>t. target_date t = d \<and> is_done t) (Tasks s)))"

definition assignedSql :: "date \<Rightarrow> db \<Rightarrow> int" where
  "assignedSql d s = int (length (filter (\<lambda>t. target_date t = d \<and> is_assigned t) (Tasks s)))"

definition calculateTaskScore :: "arith \<Rightarrow> faults \<Rightarrow> date \<Rightarrow> db \<Rightarrow> error + real" where
  "calculateTaskScore ar flt d s =
     (case getDb flt (CountCompleted d) (completedSql d s) of
        Inl e \<Rightarrow> Inl e
      | Inr num_completed_today \<Rightarrow>
          (case getDb flt (CountAssigned d) (assignedSql d s) of
             Inl e \<Rightarrow> Inl e
           | Inr num_assigned_for_today \<Rightarrow>
               Inr (if num_assigned_for_today > 0
                    then js_div ar (real_of_int num_completed_today)
                           (real_of_int num_assigned_for_today)
                    else if num_completed_today > 0 then real_of_int num_completed_today
                    else 0)))"

text \<open>
  \<open>SUM(weight_at_completion)\<close> over the day's completions, \<open>row.score || 0\<close>: the sum
  of no row is \<open>NULL\<close>, which becomes 0. The preceding \<open>db.all\<close> of the source only
  logs the rows, and logs its own error without rejecting, so it does not appear in the
  control flow.
\<close>

definition sumSql :: "arith \<Rightarrow> date \<Rightarrow> db \<Rightarrow> real" where
  "sumSql ar d s =
     (let weights =
            map weight_at_completion (filter (\<lambda>c. completion_date c = d) (HabitCompletions s))
      in if weights = [] then 0 else sql_sum ar weights)"

definition calculateHabitScore :: "arith \<Rightarrow> faults \<Rightarrow> date \<Rightarrow> db \<Rightarrow> error + real" where
  "calculateHabitScore ar flt d s = getDb flt (SumHabitWeights d) (sumSql ar d s)"

definition minutes_of :: "log_type \<Rightarrow> date \<Rightarrow> db \<Rightarrow> int" where
  "minutes_of ty d s =
     sum_list (map (\<lambda>l. if type l = ty then duration_minutes l else 0)
                   (filter (\<lambda>l. date_logged_for l = d) (TimeLogs s)))"

definition calculateTimeScore :: "arith \<Rightarrow> faults \<Rightarrow> date \<Rightarrow> db \<Rightarrow> error + real" where
  "calculateTimeScore ar flt d s =
     (case getDb flt (SumTimeLogs d) (minutes_of productive d s, minutes_of distracting d s) of
        Inl e \<Rightarrow> Inl e
      | Inr (productiveMinutes, distractingMinutes) \<Rightarrow>
          (let productiveHours = js_div ar (real_of_int productiveMinutes) 60;
               distractingHours = js_div ar (real_of_int distractingMinutes) 60
           in Inr (js_mul ar (js_sub ar productiveHours distractingHours) 10)))"

subsection \<open>recalculateDailyScore\<close>

text \<open>
  Step 5 of \<open>recalculateDailyScore\<close>: the pair
  (\<open>new_streak_days_for_storage\<close>, \<open>current_streak_days_for_bonus\<close>). The two variables
  start at \<open>0\<close> and \<open>prevDayStreak\<close>; the branches overwrite them.
\<close>

definition composer_streak_logic :: "bool \<Rightarrow> real \<Rightarrow> int \<Rightarrow> int \<times> int" where
  "composer_streak_logic isRestDay base_daily_score prevDayStreak =
     (let new_streak_days_for_storage = (0::int);
          current_streak_days_for_bonus = prevDayStreak
      in if isRestDay then (prevDayStreak, current_streak_days_for_bonus)
         else if base_daily_score \<ge> 60
              then (let new_streak_days_for_storage = prevDayStreak + 1
                    in (new_streak_days_for_storage, new_streak_days_for_storage))
              else (0, 0))"

text \<open>Step 6: \<open>streak_bonus_component\<close> from \<open>current_streak_days_for_bonus\<close>.\<close>

definition composer_streak_bonus :: "arith \<Rightarrow> int \<Rightarrow> real" where
  "composer_streak_bonus ar current_streak_days_for_bonus =
     (if current_streak_days_for_bonus > 0
      then js_div ar
             (real_of_int
                (Math_round
                   (js_mul ar
                      (Math_log2 ar
                         (js_add ar 2 (js_div ar (real_of_int current_streak_days_for_bonus) 365)))
                      100)))
             100
      else 0)"

text \<open>
  Step 9, \<open>INSERT INTO DailyScores (...) ON CONFLICT(date) DO UPDATE SET ...\<close>: the six
  score columns are set, on a new row (every other column at its default) or on the
  existing one.
\<close>

definition dailyScoreSql :: "date \<Rightarrow> score_columns \<Rightarrow> db \<Rightarrow> db" where
  "dailyScoreSql d x s =
     s\<lparr>DailyScores :=
         AList.update d
           ((case map_of (DailyScores s) d of None \<Rightarrow> default_row | Some r \<Rightarrow> r)
              \<lparr>habit_score_component := habit_score_component x,
               task_score_component := task_score_component x,
               time_score_component := time_score_component x,
               streak_bonus_component := streak_bonus_component x,
               total_daily_score := total_daily_score x,
               is_manually_marked_rest_day := is_manually_marked_rest_day x\<rparr>)
           (DailyScores s)\<rparr>"

text \<open>
  \<open>INSERT INTO StreakData (date, current_streak_days) ... ON CONFLICT(date) DO UPDATE\<close>,
  issued by both operations.
\<close>

definition streakDataSql :: "date \<Rightarrow> int \<Rightarrow> db \<Rightarrow> db" where
  "streakDataSql d n s = s\<lparr>StreakData := AList.update d n (StreakData s)\<rparr>"

definition recalculateDailyScore ::
  "arith \<Rightarrow> faults \<Rightarrow> date \<Rightarrow> db \<Rightarrow> (error + date \<times> score_columns) \<times> db" where
  "recalculateDailyScore ar flt d s =
     (case getDb flt (SelectRestDay d)
             (map_option is_manually_marked_rest_day (map_of (DailyScores s) d)) of
        Inl e \<Rightarrow> (Inl e, s)
      | Inr dailyStatusRow \<Rightarrow>
     (let isRestDay = (case dailyStatusRow of None \<Rightarrow> False | Some v \<Rightarrow> v = 1) in
      case calculateTaskScore ar flt d s of
        Inl e \<Rightarrow> (Inl e, s)
      | Inr task_score_ratio \<Rightarrow>
     (case calculateHabitScore ar flt d s of
        Inl e \<Rightarrow> (Inl e, s)
      | Inr habit_score_sum_weights \<Rightarrow>
     (case calculateTimeScore ar flt d s of
        Inl e \<Rightarrow> (Inl e, s)
      | Inr time_score_points \<Rightarrow>
     (let habit_points = js_mul ar habit_score_sum_weights 100;
          task_points = js_mul ar task_score_ratio 100
      in case getDb flt (SelectStreak (d - 1)) (map_of (StreakData s) (d - 1)) of
        Inl e \<Rightarrow> (Inl e, s)
      | Inr prevStreakData \<Rightarrow>
     (let prevDayStreak = (case prevStreakData of None \<Rightarrow> 0 | Some v \<Rightarrow> v);
          base_daily_score =
            js_add ar
              (js_add ar (js_mul ar habit_points (js_lit ar 0.45))
                         (js_mul ar task_points (js_lit ar 0.45)))
              (js_mul ar time_score_points (js_lit ar 0.1));
          (new_streak_days_for_storage, current_streak_days_for_bonus) =
            composer_streak_logic isRestDay base_daily_score prevDayStreak;
          streak_bonus = composer_streak_bonus ar current_streak_days_for_bonus;
          total_score = js_add ar base_daily_score streak_bonus;
          scoreDataForDb =
            \<lparr>habit_score_component = habit_points,
             task_score_component = task_points,
             time_score_component = time_score_points,
             streak_bonus_component = streak_bonus,
             total_daily_score = total_score,
             is_manually_marked_rest_day = (if isRestDay then 1 else 0)\<rparr>
      in case runDb flt (UpsertDailyScore d) (dailyScoreSql d scoreDataForDb) s of
        (Inl e, s1) \<Rightarrow> (Inl e, s1)
      | (Inr _, s1) \<Rightarrow>
     (case runDb flt (UpsertStreak d) (streakDataSql d new_streak_days_for_storage) s1 of
        (Inl e, s2) \<Rightarrow> (Inl e, s2)
      | (Inr _, s2) \<Rightarrow> (Inr (d, scoreDataForDb), s2))))))))"

subsection \<open>recalculateStreaksForward\<close>

text \<open>\<open>SELECT MAX(date) as max_date FROM DailyScores\<close>: \<open>NULL\<close> on an empty table.\<close>

definition max_date :: "(date \<times> 'a) list \<Rightarrow> date option" where
  "max_date tbl = (if tbl = [] then None else Some (Max (set (map fst tbl))))"

text \<open>
  Step 3 of the loop body: the pair
  (\<open>newStreakForCurrentDay_storage\<close>, \<open>streakUsedForBonusCalculation\<close>).
\<close>

definition reconciler_streak_logic :: "bool \<Rightarrow> real \<Rightarrow> int \<Rightarrow> int \<times> int" where
  "reconciler_streak_logic isRestDay baseScoreForThisDay actualPrevDayStreak =
     (let streakUsedForBonusCalculation = actualPrevDayStreak
      in if isRestDay then (actualPrevDayStreak, streakUsedForBonusCalculation)
         else if baseScoreForThisDay \<ge> 60
              then (let newStreakForCurrentDay_storage = actualPrevDayStreak + 1
                    in (newStreakForCurrentDay_storage, newStreakForCurrentDay_storage))
              else (0, 0))"

text \<open>Step 5 of the loop body: \<open>newBonus\<close>.\<close>

definition reconciler_newBonus :: "arith \<Rightarrow> int \<Rightarrow> real" where
  "reconciler_newBonus ar streakUsedForBonusCalculation =
     (if streakUsedForBonusCalculation > 0
      then js_div ar
             (real_of_int
                (Math_round
                   (js_mul ar
                      (Math_log2 ar
                         (js_add ar 2 (js_div ar (real_of_int streakUsedForBonusCalculation) 365)))
                      100)))
             100
      else 0)"

text \<open>
  Step 6, \<open>UPDATE DailyScores SET streak_bonus_component = ?, total_daily_score = ?
  WHERE date = ?\<close>.
\<close>

definition updateBonusSql :: "date \<Rightarrow> real \<Rightarrow> real \<Rightarrow> db \<Rightarrow> db" where
  "updateBonusSql d newBonus newTotal s =
     s\<lparr>DailyScores :=
         map_ran (\<lambda>k r. if k = d
                         then r\<lparr>streak_bonus_component := newBonus, total_daily_score := newTotal\<rparr>
                         else r)
                 (DailyScores s)\<rparr>"

text \<open>The body of the \<open>while\<close> loop for the day \<open>currentDate\<close>.\<close>

definition streakForward_day ::
  "arith \<Rightarrow> faults \<Rightarrow> date \<Rightarrow> db \<Rightarrow> (error + unit) \<times> db" where
  "streakForward_day ar flt currentDate s =
     (case getDb flt (SelectDailyScore currentDate) (map_of (DailyScores s) currentDate) of
        Inl e \<Rightarrow> (Inl e, s)
      | Inr None \<Rightarrow> (Inr (), s)
      | Inr (Some dailyScoreEntry) \<Rightarrow>
     (let baseScoreForThisDay =
            js_add ar
              (js_add ar (js_mul ar (habit_score_component dailyScoreEntry) (js_lit ar 0.45))
                         (js_mul ar (task_score_component dailyScoreEntry) (js_lit ar 0.45)))
              (js_mul ar (time_score_component dailyScoreEntry) (js_lit ar 0.1));
          isRestDay = (is_manually_marked_rest_day dailyScoreEntry = 1);
          oldBonus = streak_bonus_component dailyScoreEntry
      in case getDb flt (SelectStreak (currentDate - 1))
                (map_of (StreakData s) (currentDate - 1)) of
        Inl e \<Rightarrow> (Inl e, s)
      | Inr prevDayStreakData \<Rightarrow>
     (let actualPrevDayStreak = (case prevDayStreakData of None \<Rightarrow> 0 | Some v \<Rightarrow> v);
          (newStreakForCurrentDay_storage, streakUsedForBonusCalculation) =
            reconciler_streak_logic isRestDay baseScoreForThisDay actualPrevDayStreak
      in case runDb flt (UpsertStreak currentDate)
                (streakDataSql currentDate newStreakForCurrentDay_storage) s of
        (Inl e, s1) \<Rightarrow> (Inl e, s1)
      | (Inr _, s1) \<Rightarrow>
     (let newBonus = reconciler_newBonus ar streakUsedForBonusCalculation
      in if newBonus \<noteq> oldBonus
         then runDb flt (UpdateBonus currentDate)
                (updateBonusSql currentDate newBonus (js_add ar baseScoreForThisDay newBonus)) s1
         else (Inr (), s1)))))"

text \<open>\<open>while (currentDate <= stopDateLoop)\<close>; a rejected statement leaves the loop.\<close>

function streakForward_loop ::
  "arith \<Rightarrow> faults \<Rightarrow> date \<Rightarrow> date \<Rightarrow> db \<Rightarrow> (error + unit) \<times> db" where
  "streakForward_loop ar flt currentDate stopDateLoop s =
     (if currentDate \<le> stopDateLoop
      then (case streakForward_day ar flt currentDate s of
              (Inl e, s1) \<Rightarrow> (Inl e, s1)
            | (Inr _, s1) \<Rightarrow> streakForward_loop ar flt (currentDate + 1) stopDateLoop s1)
      else (Inr (), s))"
  by pat_completeness auto
termination
  by (relation
        "measure (\<lambda>(ar, flt, currentDate, stopDateLoop, s). nat (stopDateLoop + 1 - currentDate))")
     auto

declare streakForward_loop.simps [simp del]

definition recalculateStreaksForward ::
  "arith \<Rightarrow> faults \<Rightarrow> date \<Rightarrow> db \<Rightarrow> (error + unit) \<times> db" where
  "recalculateStreaksForward ar flt startDateToRecalculateFrom s =
     (case getDb flt SelectMaxDate (max_date (DailyScores s)) of
        Inl e \<Rightarrow> (Inl e, s)
      | Inr None \<Rightarrow> (Inr (), s)
      | Inr (Some lastDayInLoop) \<Rightarrow>
          if startDateToRecalculateFrom > lastDayInLoop then (Inr (), s)
          else streakForward_loop ar flt startDateToRecalculateFrom lastDayInLoop s)"

subsection \<open>The rest-day route\<close>

text \<open>
  \<open>PUT /api/daily-status/:date\<close> of the server: the flag is upserted into
  \<open>DailyScores\<close>, then the day is rescored. A request with a malformed date or a
  non-boolean flag is answered with status 400 before this point; the types of the model
  leave such requests out. \<open>Inl\<close> is the answer with status 500.
\<close>

definition restDaySql :: "date \<Rightarrow> bool \<Rightarrow> db \<Rightarrow> db" where
  "restDaySql d is_rest_day s =
     s\<lparr>DailyScores :=
         AList.update d
           ((case map_of (DailyScores s) d of None \<Rightarrow> default_row | Some r \<Rightarrow> r)
              \<lparr>is_manually_marked_rest_day := (if is_rest_day then 1 else 0)\<rparr>)
           (DailyScores s)\<rparr>"

definition put_daily_status ::
  "arith \<Rightarrow> faults \<Rightarrow> date \<Rightarrow> bool \<Rightarrow> db \<Rightarrow> (error + date \<times> score_columns) \<times> db" where
  "put_daily_status ar flt d is_rest_day s =
     (case runDb flt (UpsertRestDay d) (restDaySql d is_rest_day) s of
        (Inl e, s1) \<Rightarrow> (Inl e, s1)
      | (Inr _, s1) \<Rightarrow> recalculateDailyScore ar flt d s1)"

subsection \<open>The rules of the specification\<close>

text \<open>
  The definitions of this subsection follow the words of the specification, not the code;
  the theorems below compare the code with them.
\<close>

text \<open>
  Base score: the weighted sum \<open>habitComponent*0.45 + taskComponent*0.45 +
  timeComponent*0.10\<close> of the three components, in floating point.
\<close>

definition spec_base :: "arith \<Rightarrow> 'a score_columns_scheme \<Rightarrow> real" where
  "spec_base ar r =
     js_add ar
       (js_add ar (js_mul ar (habit_score_component r) (js_lit ar 0.45))
                  (js_mul ar (task_score_component r) (js_lit ar 0.45)))
       (js_mul ar (time_score_component r) (js_lit ar 0.10))"

text \<open>The rest-day flag of a date: the stored flag if a record exists, false otherwise.\<close>

definition spec_rest_day :: "date \<Rightarrow> db \<Rightarrow> bool" where
  "spec_rest_day d s =
     (case map_of (DailyScores s) d of None \<Rightarrow> False
      | Some r \<Rightarrow> is_manually_marked_rest_day r = 1)"

text \<open>The streak transition rule: the pair (newStreak, bonusBasis).\<close>

definition spec_streak_transition :: "int \<Rightarrow> real \<Rightarrow> bool \<Rightarrow> int \<times> int" where
  "spec_streak_transition prevStreak baseScore isRestDay =
     (if isRestDay then (prevStreak, prevStreak)
      else if baseScore \<ge> 60 then (prevStreak + 1, prevStreak + 1)
      else (0, 0))"

text \<open>Rounding to the nearest integer, a half away from zero.\<close>

definition round_half_away_from_zero :: "real \<Rightarrow> int" where
  "round_half_away_from_zero x = (if x < 0 then - \<lfloor>- x + 1 / 2\<rfloor> else \<lfloor>x + 1 / 2\<rfloor>)"

text \<open>
  What the comparison of the two roundings needs of the arithmetic: rounding to a double
  is monotone and leaves 0 and 2 as they are, and \<open>Math.log2\<close> of a number from 2 on is
  not negative.
\<close>

definition arith_ok :: "arith \<Rightarrow> bool" where
  "arith_ok ar \<longleftrightarrow>
     (\<forall>x y. x \<le> y \<longrightarrow> rnd ar x \<le> rnd ar y) \<and> rnd ar 0 = 0 \<and> rnd ar 2 = 2
     \<and> (\<forall>x. 2 \<le> x \<longrightarrow> 0 \<le> Math_log2 ar x)"

text \<open>The streak bonus of a bonus basis.\<close>

definition spec_streak_bonus :: "arith \<Rightarrow> int \<Rightarrow> real" where
  "spec_streak_bonus ar bonusBasis =
     (if bonusBasis > 0
      then js_div ar
             (real_of_int
                (round_half_away_from_zero
                   (js_mul ar
                      (Math_log2 ar (js_add ar 2 (js_div ar (real_of_int bonusBasis) 365)))
                      100)))
             100
      else 0)"

text \<open>\<open>StreakRecord[d - 1].currentStreakDays\<close>, 0 if absent.\<close>

definition spec_prev_streak :: "date \<Rightarrow> db \<Rightarrow> int" where
  "spec_prev_streak d s = (case map_of (StreakData s) (d - 1) of None \<Rightarrow> 0 | Some v \<Rightarrow> v)"

text \<open>The invariant of a DailyScoreRecord.\<close>

definition total_consistent :: "arith \<Rightarrow> 'a score_columns_scheme \<Rightarrow> bool" where
  "total_consistent ar r \<longleftrightarrow>
     total_daily_score r =
       js_add ar
         (js_add ar
            (js_add ar (js_mul ar (habit_score_component r) (js_lit ar 0.45))
                       (js_mul ar (task_score_component r) (js_lit ar 0.45)))
            (js_mul ar (time_score_component r) (js_lit ar 0.10)))
         (streak_bonus_component r)"

text \<open>
  The invariant of the table: the record of every date is consistent. (The dates are those
  of the rows; \<open>map_of\<close> finds the row of a date.)
\<close>

definition total_invariant :: "arith \<Rightarrow> db \<Rightarrow> bool" where
  "total_invariant ar s \<longleftrightarrow>
     (\<forall>d \<in> set (map fst (DailyScores s)).
        case map_of (DailyScores s) d of None \<Rightarrow> True | Some r \<Rightarrow> total_consistent ar r)"

subsection \<open>Auxiliary notions for the proofs\<close>

text \<open>
  What \<open>calculateTaskScore\<close> and \<open>calculateTimeScore\<close> return when their reads
  succeed (lemmas \<open>calculateTaskScore_no_faults\<close>, \<open>calculateTimeScore_no_faults\<close>).
\<close>

definition task_ratio :: "arith \<Rightarrow> date \<Rightarrow> db \<Rightarrow> real" where
  "task_ratio ar d s =
     (if assignedSql d s > 0
      then js_div ar (real_of_int (completedSql d s)) (real_of_int (assignedSql d s))
      else if completedSql d s > 0 then real_of_int (completedSql d s) else 0)"

definition time_points :: "arith \<Rightarrow> date \<Rightarrow> db \<Rightarrow> real" where
  "time_points ar d s =
     js_mul ar
       (js_sub ar (js_div ar (real_of_int (minutes_of productive d s)) 60)
                  (js_div ar (real_of_int (minutes_of distracting d s)) 60))
       10"

text \<open>
  What steps 1 to 8 of \<open>recalculateDailyScore\<close> compute when no statement fails: the
  score columns and the streak to store (lemma \<open>recalculateDailyScore_no_faults\<close>).
\<close>

definition composed_columns :: "arith \<Rightarrow> date \<Rightarrow> db \<Rightarrow> score_columns \<times> int" where
  "composed_columns ar d s =
     (let habit_points = js_mul ar (sumSql ar d s) 100;
          task_points = js_mul ar (task_ratio ar d s) 100;
          base_daily_score =
            js_add ar
              (js_add ar (js_mul ar habit_points (js_lit ar 0.45))
                         (js_mul ar task_points (js_lit ar 0.45)))
              (js_mul ar (time_points ar d s) (js_lit ar 0.1));
          logic =
            composer_streak_logic (spec_rest_day d s) base_daily_score (spec_prev_streak d s)
      in (\<lparr>habit_score_component = habit_points,
           task_score_component = task_points,
           time_score_component = time_points ar d s,
           streak_bonus_component = composer_streak_bonus ar (snd logic),
           total_daily_score = js_add ar base_daily_score (composer_streak_bonus ar (snd logic)),
           is_manually_marked_rest_day = (if spec_rest_day d s then 1 else 0)\<rparr>,
          fst logic))"

text \<open>Two databases hold the same rows in every table.\<close>

definition same_tables :: "db \<Rightarrow> db \<Rightarrow> bool" where
  "same_tables s t \<longleftrightarrow>
     Tasks s = Tasks t \<and> HabitCompletions s = HabitCompletions t \<and> TimeLogs s = TimeLogs t
     \<and> DailyScores s = DailyScores t \<and> StreakData s = StreakData t"

subsection \<open>Example databases\<close>

definition empty_db :: db where
  "empty_db =
     \<lparr>Tasks = [], HabitCompletions = [], TimeLogs = [], DailyScores = [], StreakData = [],
      journal = []\<rparr>"

text \<open>Days 0 and 2 are scored (with nothing done), day 1 is not.\<close>

definition gap_db :: db where
  "gap_db = empty_db\<lparr>DailyScores := [(0, default_row), (2, default_row)]\<rparr>"

text \<open>Day 0 alone is scored.\<close>

definition single_db :: db where
  "single_db = empty_db\<lparr>DailyScores := [(0, default_row)]\<rparr>"

text \<open>
  Days 1 and 2, each with its habit (weight 1) completed and its one task done: base score
  90 on both days, streaks 1 and 2, bonus 1, total 91.
\<close>

definition streak_row :: DailyScores_row where
  "streak_row =
     \<lparr>habit_score_component = 100, task_score_component = 100, time_score_component = 0,
      streak_bonus_component = 1, total_daily_score = 91, is_manually_marked_rest_day = 0,
      notes_column = Some []\<rparr>"

definition streak_db :: db where
  "streak_db =
     \<lparr>Tasks = [\<lparr>target_date = 1, is_assigned = True, is_done = True\<rparr>,
               \<lparr>target_date = 2, is_assigned = True, is_done = True\<rparr>],
      HabitCompletions =
        [\<lparr>habit_id = 1, completion_date = 1, weight_at_completion = 1\<rparr>,
         \<lparr>habit_id = 1, completion_date = 2, weight_at_completion = 1\<rparr>],
      TimeLogs = [],
      DailyScores = [(1, streak_row), (2, streak_row)],
      StreakData = [(1, 1), (2, 2)],
      journal = []\<rparr>"

text \<open>Day 0 is scored, with nothing done, and carries a note.\<close>

definition noted_db :: db where
  "noted_db = empty_db\<lparr>DailyScores := [(0, default_row\<lparr>notes_column := Some ''rest''\<rparr>)]\<rparr>"

text \<open>One of the six reads of \<open>recalculateDailyScore\<close> fails.\<close>

definition reads_fail :: "faults \<Rightarrow> date \<Rightarrow> bool" where
  "reads_fail flt d \<longleftrightarrow>
     flt (SelectRestDay d) \<or> flt (CountCompleted d) \<or> flt (CountAssigned d)
     \<or> flt (SumHabitWeights d) \<or> flt (SumTimeLogs d) \<or> flt (SelectStreak (d - 1))"

text \<open>
  Two rows agree on everything but the streak bonus and the total; two databases hold the
  same dates in \<open>DailyScores\<close>, with rows that agree in this sense.
\<close>

definition same_inputs :: "DailyScores_row \<Rightarrow> DailyScores_row \<Rightarrow> bool" where
  "same_inputs r r' \<longleftrightarrow>
     habit_score_component r' = habit_score_component r
     \<and> task_score_component r' = task_score_component r
     \<and> time_score_component r' = time_score_component r
     \<and> is_manually_marked_rest_day r' = is_manually_marked_rest_day r
     \<and> notes_column r' = notes_column r"

definition score_frame :: "db \<Rightarrow> db \<Rightarrow> bool" where
  "score_frame s s' \<longleftrightarrow>
     (\<forall>x. rel_option same_inputs (map_of (DailyScores s) x) (map_of (DailyScores s') x))"

text \<open>
  What the loop body of \<open>recalculateStreaksForward\<close> computes for a day with the row
  \<open>r\<close>: the pair of the streak to store and the basis of the bonus. A day is settled
  when its stored streak and its stored bonus are the ones the loop body would compute.
\<close>

definition day_outcome :: "arith \<Rightarrow> date \<Rightarrow> DailyScores_row \<Rightarrow> db \<Rightarrow> int \<times> int" where
  "day_outcome ar c r s =
     reconciler_streak_logic (is_manually_marked_rest_day r = 1)
       (js_add ar
          (js_add ar (js_mul ar (habit_score_component r) (js_lit ar 0.45))
                     (js_mul ar (task_score_component r) (js_lit ar 0.45)))
          (js_mul ar (time_score_component r) (js_lit ar 0.1)))
       (spec_prev_streak c s)"

definition day_settled :: "arith \<Rightarrow> date \<Rightarrow> db \<Rightarrow> bool" where
  "day_settled ar c s \<longleftrightarrow>
     (case map_of (DailyScores s) c of
        None \<Rightarrow> True
      | Some r \<Rightarrow>
          map_of (StreakData s) c = Some (fst (day_outcome ar c r s))
          \<and> streak_bonus_component r = reconciler_newBonus ar (snd (day_outcome ar c r s)))"

text \<open>The dates from \<open>c\<close> to \<open>stop\<close> that have a row in \<open>DailyScores\<close>.\<close>

definition scored_days :: "date \<Rightarrow> date \<Rightarrow> db \<Rightarrow> date list" where
  "scored_days c stop s = filter (\<lambda>x. map_of (DailyScores s) x \<noteq> None) [c..stop]"

section \<open>Theorems\<close>

subsection \<open>The arithmetic without rounding\<close>

lemma exact_arith_simps:
  "rnd exact_arith x = x" "Math_log2 exact_arith x = log 2 x" "sql_sum exact_arith xs = sum_list xs"
  "js_mul exact_arith x y = x * y" "js_add exact_arith x y = x + y"
  "js_sub exact_arith x y = x - y" "js_div exact_arith x y = x / y" "js_lit exact_arith x = x"
  by (simp_all add: exact_arith_def js_mul_def js_add_def js_sub_def js_div_def js_lit_def)

subsection \<open>The operations when no statement fails\<close>

lemma getDb_no_faults: "getDb no_faults st v = Inr v"
  by (simp add: getDb_def no_faults_def)

lemma runDb_no_faults:
  "runDb no_faults st upd s = (Inr (), (upd s)\<lparr>journal := journal s @ [st]\<rparr>)"
  by (simp add: runDb_def no_faults_def)

lemma calculateTaskScore_no_faults:
  "calculateTaskScore ar no_faults d s = Inr (task_ratio ar d s)"
  by (simp add: calculateTaskScore_def getDb_no_faults task_ratio_def)

lemma calculateHabitScore_no_faults: "calculateHabitScore ar no_faults d s = Inr (sumSql ar d s)"
  by (simp add: calculateHabitScore_def getDb_no_faults)

lemma calculateTimeScore_no_faults:
  "calculateTimeScore ar no_faults d s = Inr (time_points ar d s)"
  by (simp add: calculateTimeScore_def getDb_no_faults Let_def time_points_def)

lemma recalculateDailyScore_no_faults:
  "recalculateDailyScore ar no_faults d s =
     (Inr (d, fst (composed_columns ar d s)),
      (streakDataSql d (snd (composed_columns ar d s))
         (dailyScoreSql d (fst (composed_columns ar d s)) s))
        \<lparr>journal := journal s @ [UpsertDailyScore d, UpsertStreak d]\<rparr>)"
  by (simp add: recalculateDailyScore_def composed_columns_def getDb_no_faults runDb_no_faults
      calculateTaskScore_no_faults calculateHabitScore_no_faults calculateTimeScore_no_faults
      spec_prev_streak_def spec_rest_day_def Let_def streakDataSql_def dailyScoreSql_def
      split: option.split prod.split)

subsection \<open>Claim C8: the task ratio of a day without assigned tasks\<close>

text \<open>
  C8. On a date with no assigned task, \<open>calculateTaskScore\<close> returns the number of
  completed tasks when that number is positive, and 0 when no task was completed.
\<close>

theorem calculateTaskScore_none_assigned:
  "assignedSql d s = 0 \<Longrightarrow>
   calculateTaskScore ar no_faults d s =
     Inr (if completedSql d s > 0 then real_of_int (completedSql d s) else 0)"
  by (simp add: calculateTaskScore_def getDb_def no_faults_def)

text \<open>
  Witness: on day 2 of a database whose only task is unassigned and done, the ratio is 1;
  the theorem is used at that database.
\<close>

theorem calculateTaskScore_none_assigned_witness:
  "assignedSql 2 (empty_db\<lparr>Tasks := [\<lparr>target_date = 2, is_assigned = False, is_done = True\<rparr>]\<rparr>) = 0
   \<and> calculateTaskScore exact_arith no_faults 2
         (empty_db\<lparr>Tasks := [\<lparr>target_date = 2, is_assigned = False, is_done = True\<rparr>]\<rparr>)
       = Inr 1"
  using calculateTaskScore_none_assigned
          [of 2 "empty_db\<lparr>Tasks := [\<lparr>target_date = 2, is_assigned = False, is_done = True\<rparr>]\<rparr>"]
  by (simp add: assignedSql_def completedSql_def empty_db_def)

subsection \<open>recalculateDailyScore under any failure\<close>

text \<open>
  The closed form of the operation: a failing read or a failing upsert of \<open>DailyScores\<close>
  leaves the database as it was; a failing upsert of \<open>StreakData\<close> leaves the new row
  of \<open>DailyScores\<close> behind.
\<close>

lemma recalculateDailyScore_cases:
  "recalculateDailyScore ar flt d s =
     (if reads_fail flt d \<or> flt (UpsertDailyScore d) then (Inl DbError, s)
      else if flt (UpsertStreak d)
      then (Inl DbError,
            (dailyScoreSql d (fst (composed_columns ar d s)) s)
              \<lparr>journal := journal s @ [UpsertDailyScore d]\<rparr>)
      else (Inr (d, fst (composed_columns ar d s)),
            (streakDataSql d (snd (composed_columns ar d s))
               (dailyScoreSql d (fst (composed_columns ar d s)) s))
              \<lparr>journal := journal s @ [UpsertDailyScore d, UpsertStreak d]\<rparr>))"
proof (cases "flt (SelectRestDay d)")
  case True
  then show ?thesis by (simp add: recalculateDailyScore_def getDb_def reads_fail_def)
next
  case f1: False
  show ?thesis
  proof (cases "flt (CountCompleted d)")
    case True
    with f1 show ?thesis
      by (simp add: recalculateDailyScore_def getDb_def reads_fail_def calculateTaskScore_def Let_def)
  next
    case f2: False
    show ?thesis
    proof (cases "flt (CountAssigned d)")
      case True
      with f1 f2 show ?thesis
        by (simp add: recalculateDailyScore_def getDb_def reads_fail_def calculateTaskScore_def Let_def)
    next
      case f3: False
      show ?thesis
      proof (cases "flt (SumHabitWeights d)")
        case True
        with f1 f2 f3 show ?thesis
          by (simp add: recalculateDailyScore_def getDb_def reads_fail_def calculateTaskScore_def
              calculateHabitScore_def Let_def)
      next
        case f4: False
        show ?thesis
        proof (cases "flt (SumTimeLogs d)")
          case True
          with f1 f2 f3 f4 show ?thesis
            by (simp add: recalculateDailyScore_def getDb_def reads_fail_def calculateTaskScore_def
                calculateHabitScore_def calculateTimeScore_def Let_def)
        next
          case f5: False
          show ?thesis
          proof (cases "flt (SelectStreak (d - 1))")
            case True
            with f1 f2 f3 f4 f5 show ?thesis
              by (simp add: recalculateDailyScore_def getDb_def reads_fail_def
                  calculateTaskScore_def calculateHabitScore_def calculateTimeScore_def Let_def)
          next
            case f6: False
            show ?thesis
            proof (cases "flt (UpsertDailyScore d)")
              case True
              with f1 f2 f3 f4 f5 f6 show ?thesis
                by (simp add: recalculateDailyScore_def getDb_def runDb_def
                    calculateTaskScore_def calculateHabitScore_def calculateTimeScore_def
                    Let_def split: option.split prod.split)
            next
              case f7: False
              show ?thesis
              proof (cases "flt (UpsertStreak d)")
                case True
                with f1 f2 f3 f4 f5 f6 f7 show ?thesis
                  by (simp add: recalculateDailyScore_def composed_columns_def getDb_def runDb_def
                      reads_fail_def calculateTaskScore_def calculateHabitScore_def
                      calculateTimeScore_def spec_prev_streak_def spec_rest_day_def
                      task_ratio_def time_points_def Let_def
                      split: option.split prod.split)
              next
                case False
                with f1 f2 f3 f4 f5 f6 f7 show ?thesis
                  by (simp add: recalculateDailyScore_def composed_columns_def getDb_def runDb_def
                      reads_fail_def calculateTaskScore_def calculateHabitScore_def
                      calculateTimeScore_def spec_prev_streak_def spec_rest_day_def
                      task_ratio_def time_points_def Let_def
                      streakDataSql_def dailyScoreSql_def
                      split: option.split prod.split)
              qed
            qed
          qed
        qed
      qed
    qed
  qed
qed

subsection \<open>Claim C9: recalculateDailyScore is idempotent\<close>

lemma composed_columns_after:
  "composed_columns ar d
     ((streakDataSql d n (dailyScoreSql d (fst (composed_columns ar d s)) s))\<lparr>journal := j\<rparr>)
   = composed_columns ar d s"
  by (simp add: composed_columns_def streakDataSql_def dailyScoreSql_def update_conv'
      assignedSql_def completedSql_def sumSql_def minutes_of_def spec_prev_streak_def
      spec_rest_day_def task_ratio_def time_points_def Let_def)

lemma dailyScoreSql_twice:
  "dailyScoreSql d x ((streakDataSql d n (dailyScoreSql d x s))\<lparr>journal := j\<rparr>)
   = (streakDataSql d n (dailyScoreSql d x s))\<lparr>journal := j\<rparr>"
  by (simp add: streakDataSql_def dailyScoreSql_def update_conv')

lemma streakDataSql_twice:
  "streakDataSql d n ((streakDataSql d n t)\<lparr>journal := j\<rparr>) = (streakDataSql d n t)\<lparr>journal := j\<rparr>"
  by (simp add: streakDataSql_def)

text \<open>
  C9. Calling \<open>recalculateDailyScore\<close> twice for the same date, with no change to the
  habit completions, tasks, time logs or rest-day flag in between, returns the same record
  both times, and the second call leaves every table as the first call left it.
\<close>

theorem recalculateDailyScore_idempotent:
  "\<exists>x s1 s2. recalculateDailyScore ar no_faults d s = (Inr x, s1)
       \<and> recalculateDailyScore ar no_faults d s1 = (Inr x, s2)
       \<and> same_tables s1 s2"
  by (simp add: recalculateDailyScore_no_faults composed_columns_after dailyScoreSql_twice
      streakDataSql_twice same_tables_def)

subsection \<open>What recalculateStreaksForward leaves alone\<close>

lemma score_frame_refl: "score_frame s s"
  by (simp add: score_frame_def same_inputs_def option.rel_refl)

lemma score_frame_trans: "score_frame s t \<Longrightarrow> score_frame t u \<Longrightarrow> score_frame s u"
  unfolding score_frame_def
proof (intro allI)
  fix x
  assume a: "\<forall>x. rel_option same_inputs (map_of (DailyScores s) x) (map_of (DailyScores t) x)"
    and b: "\<forall>x. rel_option same_inputs (map_of (DailyScores t) x) (map_of (DailyScores u) x)"
  from a have "rel_option same_inputs (map_of (DailyScores s) x) (map_of (DailyScores t) x)" by blast
  moreover from b have "rel_option same_inputs (map_of (DailyScores t) x) (map_of (DailyScores u) x)" by blast
  ultimately show "rel_option same_inputs (map_of (DailyScores s) x) (map_of (DailyScores u) x)"
    by (cases "map_of (DailyScores s) x"; cases "map_of (DailyScores t) x";
        cases "map_of (DailyScores u) x") (auto simp: same_inputs_def)
qed

lemma score_frame_journal: "score_frame s (s\<lparr>journal := j\<rparr>)"
  by (simp add: score_frame_def same_inputs_def option.rel_refl)

lemma score_frame_streakDataSql: "score_frame s ((streakDataSql c n s)\<lparr>journal := j\<rparr>)"
  by (simp add: score_frame_def streakDataSql_def same_inputs_def option.rel_refl)

lemma score_frame_updateBonusSql: "score_frame s ((updateBonusSql c b t s)\<lparr>journal := j\<rparr>)"
  unfolding score_frame_def
proof
  fix x
  show "rel_option same_inputs (map_of (DailyScores s) x)
          (map_of (DailyScores ((updateBonusSql c b t s)\<lparr>journal := j\<rparr>)) x)"
    by (cases "map_of (DailyScores s) x")
       (simp_all add: updateBonusSql_def map_ran_conv same_inputs_def)
qed

lemma streakForward_day_frame: "score_frame s (snd (streakForward_day ar flt c s))"
proof (cases "map_of (DailyScores s) c")
  case None
  then show ?thesis
    by (simp add: streakForward_day_def getDb_def score_frame_refl)
next
  case (Some entry)
  then show ?thesis
    by (auto simp add: streakForward_day_def getDb_def runDb_def Let_def case_prod_beta
        score_frame_refl score_frame_streakDataSql
        intro!: score_frame_trans [OF score_frame_streakDataSql score_frame_updateBonusSql])
qed

lemma streakForward_loop_frame: "score_frame s (snd (streakForward_loop ar flt c stop s))"
proof (induction ar flt c stop s rule: streakForward_loop.induct)
  case (1 ar flt c stop s)
  show ?case
  proof (cases "c \<le> stop")
    case False
    then show ?thesis by (simp add: streakForward_loop.simps [of ar flt c stop s] score_frame_refl)
  next
    case True
    obtain r s1 where day: "streakForward_day ar flt c s = (r, s1)"
      by (cases "streakForward_day ar flt c s")
    have f1: "score_frame s s1"
      using streakForward_day_frame [of s ar flt c] day by simp
    show ?thesis
    proof (cases r)
      case (Inl e)
      with True day f1 show ?thesis by (simp add: streakForward_loop.simps [of ar flt c stop s])
    next
      case (Inr u)
      have "score_frame s1 (snd (streakForward_loop ar flt (c + 1) stop s1))"
        using "1.IH" [OF True day [symmetric] Inr] .
      with f1 have "score_frame s (snd (streakForward_loop ar flt (c + 1) stop s1))"
        by (rule score_frame_trans)
      with True day Inr show ?thesis by (simp add: streakForward_loop.simps [of ar flt c stop s])
    qed
  qed
qed

subsection \<open>recalculateDailyScore: the invariant and the notes\<close>

lemma total_invariant_iff:
  "total_invariant ar s \<longleftrightarrow> (\<forall>d r. map_of (DailyScores s) d = Some r \<longrightarrow> total_consistent ar r)"
proof
  assume inv: "total_invariant ar s"
  show "\<forall>d r. map_of (DailyScores s) d = Some r \<longrightarrow> total_consistent ar r"
  proof (intro allI impI)
    fix d r
    assume m: "map_of (DailyScores s) d = Some r"
    then have "(d, r) \<in> set (DailyScores s)" by (rule map_of_SomeD)
    then have "d \<in> set (map fst (DailyScores s))" by force
    with inv m show "total_consistent ar r" by (auto simp: total_invariant_def)
  qed
next
  assume "\<forall>d r. map_of (DailyScores s) d = Some r \<longrightarrow> total_consistent ar r"
  then show "total_invariant ar s"
    by (auto simp: total_invariant_def split: option.split)
qed

lemma composed_columns_consistent: "total_consistent ar (fst (composed_columns ar d s))"
  by (simp add: composed_columns_def total_consistent_def Let_def)

lemma dailyScoreSql_lookup:
  "map_of (DailyScores (dailyScoreSql d x s)) y =
     (if y = d
      then Some ((case map_of (DailyScores s) d of None \<Rightarrow> default_row | Some r \<Rightarrow> r)
                   \<lparr>habit_score_component := habit_score_component x,
                    task_score_component := task_score_component x,
                    time_score_component := time_score_component x,
                    streak_bonus_component := streak_bonus_component x,
                    total_daily_score := total_daily_score x,
                    is_manually_marked_rest_day := is_manually_marked_rest_day x\<rparr>)
      else map_of (DailyScores s) y)"
  by (simp add: dailyScoreSql_def update_conv')

lemma dailyScoreSql_invariant:
  assumes "total_invariant ar s" and "total_consistent ar x"
  shows "total_invariant ar (dailyScoreSql d x s)"
  using assms
  by (auto simp add: total_invariant_iff dailyScoreSql_lookup total_consistent_def
        split: if_splits)

lemma DailyScores_of_composer:
  "DailyScores (snd (recalculateDailyScore ar flt d s)) = DailyScores s
   \<or> DailyScores (snd (recalculateDailyScore ar flt d s))
       = DailyScores (dailyScoreSql d (fst (composed_columns ar d s)) s)"
  by (simp add: recalculateDailyScore_cases streakDataSql_def)

lemma total_invariant_cong:
  "DailyScores s = DailyScores t \<Longrightarrow> total_invariant ar s = total_invariant ar t"
  by (simp add: total_invariant_def)

lemma recalculateDailyScore_invariant:
  assumes "total_invariant ar s"
  shows "total_invariant ar (snd (recalculateDailyScore ar flt d s))"
proof -
  have new: "total_invariant ar (dailyScoreSql d (fst (composed_columns ar d s)) s)"
    using assms composed_columns_consistent by (rule dailyScoreSql_invariant)
  from DailyScores_of_composer [of ar flt d s] show ?thesis
  proof
    assume "DailyScores (snd (recalculateDailyScore ar flt d s)) = DailyScores s"
    from total_invariant_cong [OF this] assms show ?thesis by simp
  next
    assume "DailyScores (snd (recalculateDailyScore ar flt d s))
              = DailyScores (dailyScoreSql d (fst (composed_columns ar d s)) s)"
    from total_invariant_cong [OF this] new show ?thesis by simp
  qed
qed

lemma recalculateDailyScore_establishes:
  assumes "recalculateDailyScore ar flt d s = (Inr y, s')"
  shows "\<exists>r. map_of (DailyScores s') d = Some r \<and> total_consistent ar r
           \<and> y = (d, \<lparr>habit_score_component = habit_score_component r,
                 task_score_component = task_score_component r,
                 time_score_component = time_score_component r,
                 streak_bonus_component = streak_bonus_component r,
                 total_daily_score = total_daily_score r,
                 is_manually_marked_rest_day = is_manually_marked_rest_day r\<rparr>)"
  using assms composed_columns_consistent [of ar d s]
  by (auto simp add: recalculateDailyScore_cases streakDataSql_def dailyScoreSql_lookup
      total_consistent_def split: if_splits)

lemma recalculateDailyScore_notes:
  assumes "map_of (DailyScores s) x = Some r"
  shows "\<exists>r'. map_of (DailyScores (snd (recalculateDailyScore ar flt d s))) x = Some r'
            \<and> notes_column r' = notes_column r"
  using assms DailyScores_of_composer [of ar flt d s]
  by (auto simp add: dailyScoreSql_lookup)

lemma recalculateDailyScore_new_row_notes:
  assumes "map_of (DailyScores s) d = None" and "recalculateDailyScore ar flt d s = (Inr y, s')"
  shows "\<exists>r'. map_of (DailyScores s') d = Some r' \<and> notes_column r' = Some []"
  using assms
  by (auto simp add: recalculateDailyScore_cases streakDataSql_def dailyScoreSql_lookup
      default_row_def split: if_splits)

subsection \<open>recalculateStreaksForward: the invariant\<close>

lemma updateBonusSql_lookup:
  "map_of (DailyScores (updateBonusSql c b t s)) y =
     (if y = c
      then map_option (\<lambda>r. r\<lparr>streak_bonus_component := b, total_daily_score := t\<rparr>)
             (map_of (DailyScores s) c)
      else map_of (DailyScores s) y)"
  by (cases "map_of (DailyScores s) y") (auto simp add: updateBonusSql_def map_ran_conv)

lemma streakForward_day_invariant:
  assumes "total_invariant ar s"
  shows "total_invariant ar (snd (streakForward_day ar flt c s))"
proof (cases "map_of (DailyScores s) c")
  case None
  with assms show ?thesis by (simp add: streakForward_day_def getDb_def)
next
  case (Some entry)
  with assms show ?thesis
    by (auto simp add: streakForward_day_def getDb_def runDb_def Let_def case_prod_beta
        total_invariant_iff streakDataSql_def updateBonusSql_lookup total_consistent_def
        split: if_splits)
qed

lemma streakForward_loop_invariant:
  "total_invariant ar s \<Longrightarrow> total_invariant ar (snd (streakForward_loop ar flt c stop s))"
proof (induction ar flt c stop s rule: streakForward_loop.induct)
  case (1 ar flt c stop s)
  show ?case
  proof (cases "c \<le> stop")
    case False
    with "1.prems" show ?thesis by (simp add: streakForward_loop.simps [of ar flt c stop s])
  next
    case True
    obtain r s1 where day: "streakForward_day ar flt c s = (r, s1)"
      by (cases "streakForward_day ar flt c s")
    have i1: "total_invariant ar s1"
      using streakForward_day_invariant [OF "1.prems", of flt c] day by simp
    show ?thesis
    proof (cases r)
      case (Inl e)
      with True day i1 show ?thesis by (simp add: streakForward_loop.simps [of ar flt c stop s])
    next
      case (Inr u)
      have "total_invariant ar (snd (streakForward_loop ar flt (c + 1) stop s1))"
        using "1.IH" [OF True day [symmetric] Inr i1] .
      with True day Inr show ?thesis by (simp add: streakForward_loop.simps [of ar flt c stop s])
    qed
  qed
qed

lemma recalculateStreaksForward_invariant:
  "total_invariant ar s \<Longrightarrow> total_invariant ar (snd (recalculateStreaksForward ar flt start s))"
  by (simp add: recalculateStreaksForward_def getDb_def streakForward_loop_invariant
      split: option.split)

lemma recalculateStreaksForward_frame:
  "score_frame s (snd (recalculateStreaksForward ar flt start s))"
  by (simp add: recalculateStreaksForward_def getDb_def streakForward_loop_frame score_frame_refl
      split: option.split)

subsection \<open>Claim C4: the two upserts of recalculateDailyScore\<close>

text \<open>
  C4 as stated: \<open>recalculateDailyScore\<close> upserts the DailyScoreRecord and the StreakRecord
  of the date atomically, so that no failure leaves the DailyScoreRecord updated while the
  write of the StreakRecord failed.

  Counterexample: on the empty database, with the upsert of \<open>StreakData\<close> for day 0
  failing, the operation fails, day 0 has its row in \<open>DailyScores\<close> and no row in
  \<open>StreakData\<close>.
\<close>

theorem recalculateDailyScore_not_atomic:
  "fst (recalculateDailyScore exact_arith (fail_only (UpsertStreak 0)) 0 empty_db) = Inl DbError
   \<and> map_of (DailyScores empty_db) 0 = None
   \<and> map_of (DailyScores (snd (recalculateDailyScore exact_arith (fail_only (UpsertStreak 0)) 0 empty_db))) 0
       = Some default_row
   \<and> map_of (StreakData (snd (recalculateDailyScore exact_arith (fail_only (UpsertStreak 0)) 0 empty_db))) 0
       = None"
  by (simp add: recalculateDailyScore_cases reads_fail_def fail_only_def empty_db_def
      dailyScoreSql_def composed_columns_def Let_def default_row_def completedSql_def
      assignedSql_def sumSql_def minutes_of_def spec_prev_streak_def composer_streak_logic_def
      composer_streak_bonus_def spec_rest_day_def task_ratio_def time_points_def
      exact_arith_simps)

text \<open>
  C4 as amended: the two upserts are separate statements, with no transaction around them.
  When a read or the upsert of \<open>DailyScores\<close> fails, \<open>recalculateDailyScore\<close> fails
  and the database is as it was before the call. When these succeed and the upsert of
  \<open>StreakData\<close> fails, the operation fails and the database differs from the one before
  the call by the upserted row of \<open>DailyScores\<close>. Whenever the operation fails, one of
  these statements has failed and \<open>StreakData\<close> is unchanged.
\<close>

theorem recalculateDailyScore_failure_states:
  "(reads_fail flt d \<or> flt (UpsertDailyScore d) \<longrightarrow>
      recalculateDailyScore ar flt d s = (Inl DbError, s))
   \<and> (\<not> reads_fail flt d \<and> \<not> flt (UpsertDailyScore d) \<and> flt (UpsertStreak d) \<longrightarrow>
        recalculateDailyScore ar flt d s =
          (Inl DbError,
           (dailyScoreSql d (fst (composed_columns ar d s)) s)
             \<lparr>journal := journal s @ [UpsertDailyScore d]\<rparr>))
   \<and> (recalculateDailyScore ar flt d s = (Inl e, s') \<longrightarrow>
        StreakData s' = StreakData s
        \<and> (reads_fail flt d \<or> flt (UpsertDailyScore d) \<or> flt (UpsertStreak d)))"
  by (auto simp add: recalculateDailyScore_cases dailyScoreSql_def split: if_splits)

text \<open>
  Witness: on the empty database, a failing read (the count of assigned tasks), a failing
  upsert of \<open>DailyScores\<close> and a failing upsert of \<open>StreakData\<close>, each for day 0.
\<close>

theorem recalculateDailyScore_failure_states_witness:
  "recalculateDailyScore exact_arith (fail_only (CountAssigned 0)) 0 empty_db = (Inl DbError, empty_db)
   \<and> recalculateDailyScore exact_arith (fail_only (UpsertDailyScore 0)) 0 empty_db = (Inl DbError, empty_db)
   \<and> recalculateDailyScore exact_arith (fail_only (UpsertStreak 0)) 0 empty_db =
       (Inl DbError,
        empty_db\<lparr>DailyScores := [(0, default_row)], journal := [UpsertDailyScore 0]\<rparr>)
   \<and> StreakData (empty_db\<lparr>DailyScores := [(0, default_row)], journal := [UpsertDailyScore 0]\<rparr>)
       = StreakData empty_db"
proof -
  have cols: "dailyScoreSql 0 (fst (composed_columns exact_arith 0 empty_db)) empty_db
                = empty_db\<lparr>DailyScores := [(0, default_row)]\<rparr>"
    by (simp add: empty_db_def dailyScoreSql_def composed_columns_def Let_def default_row_def
        completedSql_def assignedSql_def sumSql_def minutes_of_def spec_prev_streak_def
        composer_streak_logic_def composer_streak_bonus_def spec_rest_day_def task_ratio_def
        time_points_def exact_arith_simps)
  have a: "reads_fail (fail_only (CountAssigned 0)) 0 \<or> fail_only (CountAssigned 0) (UpsertDailyScore 0)"
    by (simp add: reads_fail_def fail_only_def)
  have b: "reads_fail (fail_only (UpsertDailyScore 0)) 0
             \<or> fail_only (UpsertDailyScore 0) (UpsertDailyScore 0)"
    by (simp add: reads_fail_def fail_only_def)
  have c: "\<not> reads_fail (fail_only (UpsertStreak 0)) 0
           \<and> \<not> fail_only (UpsertStreak 0) (UpsertDailyScore 0)
           \<and> fail_only (UpsertStreak 0) (UpsertStreak 0)"
    by (simp add: reads_fail_def fail_only_def)
  have run: "recalculateDailyScore exact_arith (fail_only (UpsertStreak 0)) 0 empty_db =
       (Inl DbError,
        empty_db\<lparr>DailyScores := [(0, default_row)], journal := [UpsertDailyScore 0]\<rparr>)"
    using recalculateDailyScore_failure_states
            [of "fail_only (UpsertStreak 0)" 0 exact_arith empty_db DbError empty_db] c
    by (simp add: cols) (simp add: empty_db_def)
  from recalculateDailyScore_failure_states
         [of "fail_only (CountAssigned 0)" 0 exact_arith empty_db DbError empty_db] a
       recalculateDailyScore_failure_states
         [of "fail_only (UpsertDailyScore 0)" 0 exact_arith empty_db DbError empty_db] b
       recalculateDailyScore_failure_states
         [of "fail_only (UpsertStreak 0)" 0 exact_arith empty_db DbError
             "empty_db\<lparr>DailyScores := [(0, default_row)], journal := [UpsertDailyScore 0]\<rparr>"]
       run
  show ?thesis by blast
qed

subsection \<open>The invariant in the states the routes produce\<close>

text \<open>
  The empty database satisfies the invariant and the rest-day route keeps it; with the
  two operations keeping it too, no sequence of them leads out of it.
\<close>

lemma total_invariant_empty_db: "total_invariant ar empty_db"
  by (simp add: total_invariant_def empty_db_def)

lemma restDaySql_invariant:
  assumes "total_invariant ar s" and "rnd ar 0 = 0"
  shows "total_invariant ar ((restDaySql d b s)\<lparr>journal := j\<rparr>)"
proof -
  have "total_consistent ar default_row"
    using assms(2)
    by (simp add: total_consistent_def default_row_def js_mul_def js_add_def)
  with assms(1) show ?thesis
    by (auto simp add: total_invariant_iff restDaySql_def update_conv' total_consistent_def
        split: if_splits option.splits)
qed

lemma put_daily_status_invariant:
  assumes "total_invariant ar s" and "rnd ar 0 = 0"
  shows "total_invariant ar (snd (put_daily_status ar flt d b s))"
proof (cases "flt (UpsertRestDay d)")
  case True
  with assms show ?thesis by (simp add: put_daily_status_def runDb_def)
next
  case False
  with restDaySql_invariant [OF assms, where d = d and b = b and j = "journal s @ [UpsertRestDay d]"]
  show ?thesis
    by (simp add: put_daily_status_def runDb_def recalculateDailyScore_invariant)
qed

subsection \<open>Claim C7: the total of a DailyScoreRecord\<close>

text \<open>
  C7. The stored total of a DailyScoreRecord is the weighted sum of its stored components
  plus its stored streak bonus. The record that \<open>recalculateDailyScore\<close> writes and
  returns satisfies this; and when every record of the table satisfies it before
  \<open>recalculateDailyScore\<close> or \<open>recalculateStreaksForward\<close> runs, every record
  satisfies it afterwards, whichever statement may fail.
\<close>

theorem total_score_invariant:
  "(recalculateDailyScore ar flt d s = (Inr y, s') \<longrightarrow>
      (\<exists>r. map_of (DailyScores s') d = Some r \<and> total_consistent ar r) \<and> total_consistent ar (snd y))
   \<and> (total_invariant ar s \<longrightarrow>
        total_invariant ar (snd (recalculateDailyScore ar flt d s))
        \<and> total_invariant ar (snd (recalculateStreaksForward ar flt start s)))"
proof (intro conjI impI)
  assume run: "recalculateDailyScore ar flt d s = (Inr y, s')"
  from recalculateDailyScore_establishes [OF run]
  show "\<exists>r. map_of (DailyScores s') d = Some r \<and> total_consistent ar r" by blast
  from run composed_columns_consistent [of ar d s] show "total_consistent ar (snd y)"
    by (auto simp add: recalculateDailyScore_cases split: if_splits)
next
  assume "total_invariant ar s"
  then show "total_invariant ar (snd (recalculateDailyScore ar flt d s))"
    by (rule recalculateDailyScore_invariant)
next
  assume "total_invariant ar s"
  then show "total_invariant ar (snd (recalculateStreaksForward ar flt start s))"
    by (rule recalculateStreaksForward_invariant)
qed

text \<open>
  Witness: the two-day streak database satisfies the invariant, and the theorem is used
  on it.
\<close>

theorem total_score_invariant_witness:
  "total_invariant exact_arith streak_db
   \<and> recalculateDailyScore exact_arith no_faults 1 streak_db =
       (Inr (1, fst (composed_columns exact_arith 1 streak_db)),
        snd (recalculateDailyScore exact_arith no_faults 1 streak_db))
   \<and> (\<exists>r. map_of (DailyScores (snd (recalculateDailyScore exact_arith no_faults 1 streak_db))) 1 = Some r
          \<and> total_consistent exact_arith r)
   \<and> total_consistent exact_arith (fst (composed_columns exact_arith 1 streak_db))
   \<and> total_invariant exact_arith (snd (recalculateDailyScore exact_arith no_faults 1 streak_db))
   \<and> total_invariant exact_arith (snd (recalculateStreaksForward exact_arith no_faults 2 streak_db))"
proof -
  have inv: "total_invariant exact_arith streak_db"
    by (simp add: total_invariant_def streak_db_def streak_row_def total_consistent_def
        exact_arith_simps)
  have run: "recalculateDailyScore exact_arith no_faults 1 streak_db =
       (Inr (1, fst (composed_columns exact_arith 1 streak_db)),
        snd (recalculateDailyScore exact_arith no_faults 1 streak_db))"
    by (simp add: recalculateDailyScore_no_faults)
  from total_score_invariant
         [of exact_arith no_faults 1 streak_db "(1, fst (composed_columns exact_arith 1 streak_db))"
             "snd (recalculateDailyScore exact_arith no_faults 1 streak_db)" 2]
       inv run
  show ?thesis by simp
qed

subsection \<open>Claim C10: what rescoring leaves alone\<close>

text \<open>
  C10. Neither operation changes the notes of a DailyScoreRecord, and
  \<open>recalculateStreaksForward\<close> changes nothing of a record but its streak bonus and its
  total: the habit, task and time components, the rest-day flag and the notes stay. This
  holds whichever statement may fail. (A row that \<open>recalculateDailyScore\<close> inserts
  holds the empty note, the default of the column: lemma
  \<open>recalculateDailyScore_new_row_notes\<close>.)
\<close>

theorem rescoring_leaves_notes_and_inputs:
  "map_of (DailyScores s) x = Some r \<Longrightarrow>
     (\<exists>r'. map_of (DailyScores (snd (recalculateDailyScore ar flt d s))) x = Some r'
           \<and> notes_column r' = notes_column r)
     \<and> (\<exists>r'. map_of (DailyScores (snd (recalculateStreaksForward ar flt start s))) x = Some r'
           \<and> habit_score_component r' = habit_score_component r
           \<and> task_score_component r' = task_score_component r
           \<and> time_score_component r' = time_score_component r
           \<and> is_manually_marked_rest_day r' = is_manually_marked_rest_day r
           \<and> notes_column r' = notes_column r)"
proof
  assume m: "map_of (DailyScores s) x = Some r"
  then show "\<exists>r'. map_of (DailyScores (snd (recalculateDailyScore ar flt d s))) x = Some r'
           \<and> notes_column r' = notes_column r"
    by (rule recalculateDailyScore_notes)
  from recalculateStreaksForward_frame [of s ar flt start] m
  have "rel_option same_inputs (Some r)
          (map_of (DailyScores (snd (recalculateStreaksForward ar flt start s))) x)"
    by (simp add: score_frame_def) (metis m)
  then show "\<exists>r'. map_of (DailyScores (snd (recalculateStreaksForward ar flt start s))) x = Some r'
           \<and> habit_score_component r' = habit_score_component r
           \<and> task_score_component r' = task_score_component r
           \<and> time_score_component r' = time_score_component r
           \<and> is_manually_marked_rest_day r' = is_manually_marked_rest_day r
           \<and> notes_column r' = notes_column r"
    by (cases "map_of (DailyScores (snd (recalculateStreaksForward ar flt start s))) x")
       (simp_all add: same_inputs_def)
qed

subsection \<open>recalculateStreaksForward when no statement fails\<close>

lemma streakForward_day_no_faults:
  "streakForward_day ar no_faults c s =
     (Inr (),
      case map_of (DailyScores s) c of
        None \<Rightarrow> s
      | Some r \<Rightarrow>
          if reconciler_newBonus ar (snd (day_outcome ar c r s)) \<noteq> streak_bonus_component r
          then (updateBonusSql c (reconciler_newBonus ar (snd (day_outcome ar c r s)))
                  (js_add ar
                     (js_add ar
                        (js_add ar (js_mul ar (habit_score_component r) (js_lit ar 0.45))
                                   (js_mul ar (task_score_component r) (js_lit ar 0.45)))
                        (js_mul ar (time_score_component r) (js_lit ar 0.1)))
                     (reconciler_newBonus ar (snd (day_outcome ar c r s))))
                  (streakDataSql c (fst (day_outcome ar c r s)) s))
                 \<lparr>journal := journal s @ [UpsertStreak c, UpdateBonus c]\<rparr>
          else (streakDataSql c (fst (day_outcome ar c r s)) s)
                 \<lparr>journal := journal s @ [UpsertStreak c]\<rparr>)"
proof (cases "map_of (DailyScores s) c")
  case None
  then show ?thesis by (simp add: streakForward_day_def getDb_no_faults)
next
  case (Some r)
  then show ?thesis
    by (simp add: streakForward_day_def getDb_no_faults runDb_no_faults Let_def case_prod_beta
        day_outcome_def spec_prev_streak_def streakDataSql_def updateBonusSql_def)
qed

lemma day_StreakData:
  "map_of (StreakData (snd (streakForward_day ar no_faults c s))) x =
     (case map_of (DailyScores s) c of
        None \<Rightarrow> map_of (StreakData s) x
      | Some r \<Rightarrow> if x = c then Some (fst (day_outcome ar c r s)) else map_of (StreakData s) x)"
  by (simp add: streakForward_day_no_faults streakDataSql_def updateBonusSql_def update_conv'
      split: option.split)

lemma day_DailyScores_other:
  "x \<noteq> c \<Longrightarrow>
   map_of (DailyScores (snd (streakForward_day ar no_faults c s))) x = map_of (DailyScores s) x"
  by (simp add: streakForward_day_no_faults streakDataSql_def updateBonusSql_lookup
      split: option.split)

lemma day_DailyScores_same:
  assumes "map_of (DailyScores s) c = Some r"
  shows "\<exists>r'. map_of (DailyScores (snd (streakForward_day ar no_faults c s))) c = Some r'
           \<and> same_inputs r r'
           \<and> streak_bonus_component r' = reconciler_newBonus ar (snd (day_outcome ar c r s))"
  using assms
  by (simp add: streakForward_day_no_faults streakDataSql_def updateBonusSql_lookup
      same_inputs_def)

lemma day_outcome_cong:
  assumes "same_inputs r r'" and "spec_prev_streak c s' = spec_prev_streak c s"
  shows "day_outcome ar c r' s' = day_outcome ar c r s"
  using assms by (simp add: day_outcome_def same_inputs_def)

lemma day_prev_streak:
  "x \<le> c \<Longrightarrow> spec_prev_streak x (snd (streakForward_day ar no_faults c s)) = spec_prev_streak x s"
  by (simp add: spec_prev_streak_def day_StreakData split: option.split)

lemma day_settled_after_day: "day_settled ar c (snd (streakForward_day ar no_faults c s))"
proof (cases "map_of (DailyScores s) c")
  case None
  then show ?thesis by (simp add: streakForward_day_no_faults day_settled_def)
next
  case (Some r)
  from day_DailyScores_same [OF Some] obtain r' where
    r': "map_of (DailyScores (snd (streakForward_day ar no_faults c s))) c = Some r'"
    and si: "same_inputs r r'"
    and b: "streak_bonus_component r' = reconciler_newBonus ar (snd (day_outcome ar c r s))"
    by blast
  have o: "day_outcome ar c r' (snd (streakForward_day ar no_faults c s)) = day_outcome ar c r s"
    using si day_prev_streak [where x = c and c = c and s = s and ar = ar] by (simp add: day_outcome_cong)
  show ?thesis
    unfolding day_settled_def r' using Some b o by (simp add: day_StreakData)
qed

lemma day_settled_kept:
  assumes "x < c" and "day_settled ar x s"
  shows "day_settled ar x (snd (streakForward_day ar no_faults c s))"
proof -
  from assms(1) have ne: "x \<noteq> c" and le: "x \<le> c" by simp_all
  have st: "map_of (StreakData (snd (streakForward_day ar no_faults c s))) x = map_of (StreakData s) x"
    using ne by (simp add: day_StreakData split: option.split)
  have o: "\<And>r. day_outcome ar x r (snd (streakForward_day ar no_faults c s)) = day_outcome ar x r s"
    using day_prev_streak [OF le] by (simp add: day_outcome_def)
  show ?thesis
    using assms(2) unfolding day_settled_def day_DailyScores_other [OF ne] st o .
qed

lemma loop_step_no_faults:
  "c \<le> stop \<Longrightarrow>
   streakForward_loop ar no_faults c stop s =
     streakForward_loop ar no_faults (c + 1) stop (snd (streakForward_day ar no_faults c s))"
  by (subst streakForward_loop.simps) (simp add: streakForward_day_no_faults)

lemma loop_done: "\<not> c \<le> stop \<Longrightarrow> streakForward_loop ar flt c stop s = (Inr (), s)"
  by (subst streakForward_loop.simps) simp

lemma loop_returns: "fst (streakForward_loop ar no_faults c stop s) = Inr ()"
proof (induction ar "no_faults" c stop s rule: streakForward_loop.induct)
  case (1 ar c stop s)
  show ?case
  proof (cases "c \<le> stop")
    case False
    then show ?thesis by (simp add: loop_done)
  next
    case True
    have day: "(Inr (), snd (streakForward_day ar no_faults c s)) = streakForward_day ar no_faults c s"
      by (simp add: streakForward_day_no_faults)
    from "1.hyps" [OF True day refl] True show ?thesis
      by (simp add: loop_step_no_faults)
  qed
qed

lemma loop_settles:
  "(\<forall>x. lo \<le> x \<and> x < c \<longrightarrow> day_settled ar x s) \<Longrightarrow>
   lo \<le> x \<Longrightarrow> x \<le> stop \<Longrightarrow>
   day_settled ar x (snd (streakForward_loop ar no_faults c stop s))"
proof (induction ar "no_faults" c stop s rule: streakForward_loop.induct)
  case (1 ar c stop s)
  show ?case
  proof (cases "c \<le> stop")
    case False
    with "1.prems" show ?thesis by (simp add: loop_done)
  next
    case True
    have day: "(Inr (), snd (streakForward_day ar no_faults c s)) = streakForward_day ar no_faults c s"
      by (simp add: streakForward_day_no_faults)
    have pre: "\<forall>y. lo \<le> y \<and> y < c + 1 \<longrightarrow> day_settled ar y (snd (streakForward_day ar no_faults c s))"
    proof (intro allI impI)
      fix y assume y: "lo \<le> y \<and> y < c + 1"
      show "day_settled ar y (snd (streakForward_day ar no_faults c s))"
      proof (cases "y = c")
        case True
        then show ?thesis by (simp add: day_settled_after_day)
      next
        case False
        with y have "y < c" by simp
        moreover from this y "1.prems"(1) have "day_settled ar y s" by simp
        ultimately show ?thesis by (rule day_settled_kept)
      qed
    qed
    from "1.hyps" [OF True day refl pre "1.prems"(2) "1.prems"(3)] True show ?thesis
      by (simp add: loop_step_no_faults)
  qed
qed

lemma day_settled_journal: "day_settled ar x (s\<lparr>journal := j\<rparr>) = day_settled ar x s"
  by (simp add: day_settled_def day_outcome_def spec_prev_streak_def cong: option.case_cong)

lemma scored_days_journal: "scored_days c stop (s\<lparr>journal := j\<rparr>) = scored_days c stop s"
  by (simp add: scored_days_def)

lemma scored_days_step:
  "c \<le> stop \<Longrightarrow>
   scored_days c stop s =
     (case map_of (DailyScores s) c of None \<Rightarrow> [] | Some r \<Rightarrow> [c]) @ scored_days (c + 1) stop s"
  by (simp add: scored_days_def upto_rec1 [of c stop] split: option.split)

lemma scored_days_done: "\<not> c \<le> stop \<Longrightarrow> scored_days c stop s = []"
  by (simp add: scored_days_def)

lemma day_on_settled:
  assumes "day_settled ar c s"
  shows "snd (streakForward_day ar no_faults c s) =
           s\<lparr>journal := journal s
                @ map UpsertStreak (case map_of (DailyScores s) c of None \<Rightarrow> [] | Some r \<Rightarrow> [c])\<rparr>"
proof (cases "map_of (DailyScores s) c")
  case None
  then show ?thesis by (simp add: streakForward_day_no_faults)
next
  case (Some r)
  with assms have st: "map_of (StreakData s) c = Some (fst (day_outcome ar c r s))"
    and b: "streak_bonus_component r = reconciler_newBonus ar (snd (day_outcome ar c r s))"
    by (simp_all add: day_settled_def)
  from st have "AList.update c (fst (day_outcome ar c r s)) (StreakData s) = StreakData s"
    by (rule update_triv)
  with Some b show ?thesis
    by (simp add: streakForward_day_no_faults streakDataSql_def)
qed

lemma loop_on_settled:
  "(\<forall>x. c \<le> x \<and> x \<le> stop \<longrightarrow> day_settled ar x s) \<Longrightarrow>
   snd (streakForward_loop ar no_faults c stop s) =
     s\<lparr>journal := journal s @ map UpsertStreak (scored_days c stop s)\<rparr>"
proof (induction ar "no_faults" c stop s rule: streakForward_loop.induct)
  case (1 ar c stop s)
  show ?case
  proof (cases "c \<le> stop")
    case False
    then show ?thesis by (simp add: loop_done scored_days_done)
  next
    case True
    let ?w = "map UpsertStreak (case map_of (DailyScores s) c of None \<Rightarrow> [] | Some r \<Rightarrow> [c])"
    have day: "(Inr (), snd (streakForward_day ar no_faults c s)) = streakForward_day ar no_faults c s"
      by (simp add: streakForward_day_no_faults)
    from "1.prems" True have "day_settled ar c s" by simp
    then have s1: "snd (streakForward_day ar no_faults c s) = s\<lparr>journal := journal s @ ?w\<rparr>"
      by (rule day_on_settled)
    have pre: "\<forall>x. c + 1 \<le> x \<and> x \<le> stop \<longrightarrow> day_settled ar x (snd (streakForward_day ar no_faults c s))"
      using "1.prems" by (simp add: s1 day_settled_journal)
    from "1.hyps" [OF True day refl pre]
    have "snd (streakForward_loop ar no_faults (c + 1) stop (snd (streakForward_day ar no_faults c s))) =
            s\<lparr>journal := journal s @ ?w @ map UpsertStreak (scored_days (c + 1) stop s)\<rparr>"
      by (simp add: s1 scored_days_journal)
    with True show ?thesis
      by (simp add: loop_step_no_faults scored_days_step [OF True] split: option.split)
  qed
qed

lemma day_keys:
  "map fst (DailyScores (snd (streakForward_day ar no_faults c s))) = map fst (DailyScores s)"
  by (simp add: streakForward_day_no_faults streakDataSql_def updateBonusSql_def
      split: option.split)

lemma loop_keys:
  "map fst (DailyScores (snd (streakForward_loop ar no_faults c stop s))) = map fst (DailyScores s)"
proof (induction ar "no_faults" c stop s rule: streakForward_loop.induct)
  case (1 ar c stop s)
  show ?case
  proof (cases "c \<le> stop")
    case False
    then show ?thesis by (simp add: loop_done)
  next
    case True
    have day: "(Inr (), snd (streakForward_day ar no_faults c s)) = streakForward_day ar no_faults c s"
      by (simp add: streakForward_day_no_faults)
    from "1.hyps" [OF True day refl] True show ?thesis
      by (simp add: loop_step_no_faults day_keys)
  qed
qed

lemma max_date_keys: "map fst t = map fst u \<Longrightarrow> max_date t = max_date u"
  by (cases t; cases u) (simp_all add: max_date_def)

lemma scored_days_frame:
  assumes "score_frame s t"
  shows "scored_days c stop t = scored_days c stop s"
proof -
  have "\<And>x. (map_of (DailyScores t) x \<noteq> None) = (map_of (DailyScores s) x \<noteq> None)"
  proof -
    fix x
    from assms have "rel_option same_inputs (map_of (DailyScores s) x) (map_of (DailyScores t) x)"
      by (simp add: score_frame_def)
    then show "(map_of (DailyScores t) x \<noteq> None) = (map_of (DailyScores s) x \<noteq> None)"
      by (cases "map_of (DailyScores s) x"; cases "map_of (DailyScores t) x") simp_all
  qed
  then show ?thesis by (simp add: scored_days_def)
qed

lemma recalculateStreaksForward_no_faults:
  "recalculateStreaksForward ar no_faults start s =
     (Inr (),
      case max_date (DailyScores s) of
        None \<Rightarrow> s
      | Some lastDay \<Rightarrow> snd (streakForward_loop ar no_faults start lastDay s))"
proof (cases "max_date (DailyScores s)")
  case None
  then show ?thesis by (simp add: recalculateStreaksForward_def getDb_no_faults)
next
  case (Some lastDay)
  have "streakForward_loop ar no_faults start lastDay s
          = (Inr (), snd (streakForward_loop ar no_faults start lastDay s))"
    using loop_returns [of ar start lastDay s] by (cases "streakForward_loop ar no_faults start lastDay s") simp
  with Some show ?thesis
    by (simp add: recalculateStreaksForward_def getDb_no_faults loop_done)
qed

lemma day_streak_frame:
  assumes "map_of (DailyScores s) x = None"
  shows "map_of (StreakData (snd (streakForward_day ar flt c s))) x = map_of (StreakData s) x"
proof (cases "map_of (DailyScores s) c")
  case None
  then show ?thesis by (simp add: streakForward_day_def getDb_def)
next
  case (Some entry)
  with assms have "x \<noteq> c" by auto
  with Some show ?thesis
    by (simp add: streakForward_day_def getDb_def runDb_def Let_def case_prod_beta
        streakDataSql_def updateBonusSql_def update_conv')
qed

lemma frame_None:
  "score_frame s t \<Longrightarrow> map_of (DailyScores s) x = None \<Longrightarrow> map_of (DailyScores t) x = None"
  by (metis option.rel_distinct(1) option.exhaust score_frame_def)

lemma loop_streak_frame:
  "map_of (DailyScores s) x = None \<Longrightarrow>
   map_of (StreakData (snd (streakForward_loop ar flt c stop s))) x = map_of (StreakData s) x"
proof (induction ar flt c stop s rule: streakForward_loop.induct)
  case (1 ar flt c stop s)
  show ?case
  proof (cases "c \<le> stop")
    case False
    then show ?thesis by (simp add: loop_done)
  next
    case True
    obtain r s1 where day: "streakForward_day ar flt c s = (r, s1)"
      by (cases "streakForward_day ar flt c s")
    have st: "map_of (StreakData s1) x = map_of (StreakData s) x"
      using day_streak_frame [OF "1.prems", where flt = flt and c = c and ar = ar] day by simp
    have none: "map_of (DailyScores s1) x = None"
      using frame_None [OF streakForward_day_frame [of s ar flt c] "1.prems"] day by simp
    show ?thesis
    proof (cases r)
      case (Inl e)
      with True day st show ?thesis by (simp add: streakForward_loop.simps [of ar flt c stop s])
    next
      case (Inr u)
      from "1.IH" [OF True day [symmetric] Inr none] st True day Inr show ?thesis
        by (simp add: streakForward_loop.simps [of ar flt c stop s])
    qed
  qed
qed

lemma recalculateStreaksForward_streak_frame:
  "map_of (DailyScores s) x = None \<Longrightarrow>
   map_of (StreakData (snd (recalculateStreaksForward ar flt start s))) x = map_of (StreakData s) x"
  by (simp add: recalculateStreaksForward_def getDb_def loop_streak_frame split: option.split)

lemmas eval_defs =
  recalculateStreaksForward_no_faults max_date_def gap_db_def single_db_def empty_db_def
  default_row_def loop_step_no_faults loop_done streakForward_day_no_faults day_outcome_def
  reconciler_streak_logic_def reconciler_newBonus_def spec_prev_streak_def streakDataSql_def
  updateBonusSql_def exact_arith_simps

subsection \<open>Claim C3: a second forward pass\<close>

text \<open>
  C3 as stated: a second run of \<open>recalculateStreaksForward\<close>, right after a first one
  and with no change of the data in between, performs no store write, a day's records being
  written only when the new streak or bonus differs from the stored one.

  Counterexample: with day 0 alone scored, the second run from day 0 executes the upsert of
  \<open>StreakData\<close> for day 0 again.
\<close>

theorem second_run_writes:
  "fst (recalculateStreaksForward exact_arith no_faults 0 single_db) = Inr ()
   \<and> journal (snd (recalculateStreaksForward exact_arith no_faults 0
                     (snd (recalculateStreaksForward exact_arith no_faults 0 single_db))))
       = journal (snd (recalculateStreaksForward exact_arith no_faults 0 single_db)) @ [UpsertStreak 0]"
  by (simp add: eval_defs)

text \<open>
  C3 as amended: both runs return normally; the second run leaves every table as the first
  run left it (the first run reaches a fixed point) and issues no update of
  \<open>DailyScores\<close>; the statements it executes are the upserts of \<open>StreakData\<close>, one
  for every date from the start date to the last scored date that has a row in
  \<open>DailyScores\<close>, each with the value already stored. (Such an upsert refreshes the
  \<open>updated_at\<close> column, which the model leaves out.)
\<close>

theorem second_run_fixed_point:
  "\<exists>s1 s2. recalculateStreaksForward ar no_faults start s = (Inr (), s1)
     \<and> recalculateStreaksForward ar no_faults start s1 = (Inr (), s2)
     \<and> same_tables s1 s2
     \<and> journal s2 = journal s1 @ (case max_date (DailyScores s) of None \<Rightarrow> []
                                   | Some lastDay \<Rightarrow> map UpsertStreak (scored_days start lastDay s))"
proof (cases "max_date (DailyScores s)")
  case None
  then show ?thesis by (simp add: recalculateStreaksForward_no_faults same_tables_def)
next
  case (Some lastDay)
  let ?s1 = "snd (streakForward_loop ar no_faults start lastDay s)"
  have m1: "max_date (DailyScores ?s1) = Some lastDay"
    using Some max_date_keys [OF loop_keys [where c = start and stop = lastDay and s = s and ar = ar]] by simp
  have settled: "\<forall>x. start \<le> x \<and> x \<le> lastDay \<longrightarrow> day_settled ar x ?s1"
  proof (intro allI impI)
    fix x assume x: "start \<le> x \<and> x \<le> lastDay"
    have none: "\<forall>y. start \<le> y \<and> y < start \<longrightarrow> day_settled ar y s" by auto
    from x show "day_settled ar x ?s1" by (intro loop_settles [OF none]) simp_all
  qed
  have second: "snd (streakForward_loop ar no_faults start lastDay ?s1) =
      ?s1\<lparr>journal := journal ?s1 @ map UpsertStreak (scored_days start lastDay ?s1)\<rparr>"
    using settled by (rule loop_on_settled)
  have days: "scored_days start lastDay ?s1 = scored_days start lastDay s"
    using streakForward_loop_frame [of s ar no_faults start lastDay] by (rule scored_days_frame)
  from Some m1 second days show ?thesis
    by (simp add: recalculateStreaksForward_no_faults same_tables_def)
qed

subsection \<open>Claim C2: a day without a DailyScoreRecord\<close>

text \<open>
  C2 as stated: for a date of the range that has no DailyScoreRecord,
  \<open>recalculateStreaksForward\<close> invokes \<open>recalculateDailyScore\<close>, so that the date has
  a DailyScoreRecord and a StreakRecord afterwards.

  Counterexample: days 0 and 2 are scored, day 1 is not; after the run from day 1 (the last
  scored date is day 2) day 1 has neither a row in \<open>DailyScores\<close> nor one in
  \<open>StreakData\<close>.
\<close>

theorem missing_day_is_skipped:
  "max_date (DailyScores gap_db) = Some 2
   \<and> map_of (DailyScores gap_db) 1 = None
   \<and> fst (recalculateStreaksForward exact_arith no_faults 1 gap_db) = Inr ()
   \<and> map_of (DailyScores (snd (recalculateStreaksForward exact_arith no_faults 1 gap_db))) 1 = None
   \<and> map_of (StreakData (snd (recalculateStreaksForward exact_arith no_faults 1 gap_db))) 1 = None"
  by (simp add: eval_defs)

text \<open>
  C2 as amended: a date without a DailyScoreRecord is skipped. Whichever statement may
  fail, the run creates no DailyScoreRecord for it and neither creates nor changes its
  StreakRecord. The run does not stop there: with no failing statement it returns
  normally, and every date of the range is settled afterwards, that is, a date with a
  DailyScoreRecord holds the streak and the bonus that the loop body computes from the
  streak stored for the previous day (0 when none is stored).
\<close>

theorem missing_day_left_out:
  "(map_of (DailyScores s) x = None \<longrightarrow>
      map_of (DailyScores (snd (recalculateStreaksForward ar flt start s))) x = None
      \<and> map_of (StreakData (snd (recalculateStreaksForward ar flt start s))) x
          = map_of (StreakData s) x)
   \<and> fst (recalculateStreaksForward ar no_faults start s) = Inr ()
   \<and> (max_date (DailyScores s) = Some lastDay \<and> start \<le> y \<and> y \<le> lastDay \<longrightarrow>
        day_settled ar y (snd (recalculateStreaksForward ar no_faults start s)))"
proof (intro conjI impI)
  assume "map_of (DailyScores s) x = None"
  then show "map_of (DailyScores (snd (recalculateStreaksForward ar flt start s))) x = None"
    using recalculateStreaksForward_frame [of s ar flt start] by (simp add: frame_None)
next
  assume "map_of (DailyScores s) x = None"
  then show "map_of (StreakData (snd (recalculateStreaksForward ar flt start s))) x
          = map_of (StreakData s) x"
    by (rule recalculateStreaksForward_streak_frame)
next
  show "fst (recalculateStreaksForward ar no_faults start s) = Inr ()"
    by (simp add: recalculateStreaksForward_no_faults)
next
  assume a: "max_date (DailyScores s) = Some lastDay \<and> start \<le> y \<and> y \<le> lastDay"
  have none: "\<forall>z. start \<le> z \<and> z < start \<longrightarrow> day_settled ar z s" by auto
  from a have "day_settled ar y (snd (streakForward_loop ar no_faults start lastDay s))"
    by (intro loop_settles [OF none]) simp_all
  with a show "day_settled ar y (snd (recalculateStreaksForward ar no_faults start s))"
    by (simp add: recalculateStreaksForward_no_faults)
qed

text \<open>Witness: the database of the counterexample, day 1 missing and day 2 settled.\<close>

theorem missing_day_left_out_witness:
  "map_of (DailyScores gap_db) 1 = None
   \<and> map_of (DailyScores (snd (recalculateStreaksForward exact_arith no_faults 1 gap_db))) 1 = None
   \<and> map_of (StreakData (snd (recalculateStreaksForward exact_arith no_faults 1 gap_db))) 1
       = map_of (StreakData gap_db) 1
   \<and> max_date (DailyScores gap_db) = Some 2
   \<and> day_settled exact_arith 2 (snd (recalculateStreaksForward exact_arith no_faults 1 gap_db))"
proof -
  have h1: "map_of (DailyScores gap_db) 1 = None"
    by (simp add: gap_db_def empty_db_def)
  have h2: "max_date (DailyScores gap_db) = Some 2 \<and> (1::int) \<le> 2 \<and> (2::int) \<le> 2"
    by (simp add: gap_db_def empty_db_def max_date_def)
  from missing_day_left_out [of gap_db 1 exact_arith no_faults 1 2 2] h1 h2 show ?thesis by blast
qed

subsection \<open>The code against the rules of the specification\<close>

lemma composer_streak_logic_spec:
  "composer_streak_logic isRestDay baseScore prevStreak
     = spec_streak_transition prevStreak baseScore isRestDay"
  by (simp add: composer_streak_logic_def spec_streak_transition_def Let_def)

lemma reconciler_streak_logic_spec:
  "reconciler_streak_logic isRestDay baseScore prevStreak
     = spec_streak_transition prevStreak baseScore isRestDay"
  by (simp add: reconciler_streak_logic_def spec_streak_transition_def Let_def)

lemma bonus_argument_nonneg:
  assumes "arith_ok ar" and "0 < b"
  shows "0 \<le> js_mul ar (Math_log2 ar (js_add ar 2 (js_div ar (real_of_int b) 365))) 100"
proof -
  from assms(1) have mono: "\<And>x y. x \<le> y \<Longrightarrow> rnd ar x \<le> rnd ar y"
    and zero: "rnd ar 0 = 0" and two: "rnd ar 2 = 2"
    and lg: "\<And>x. 2 \<le> x \<Longrightarrow> 0 \<le> Math_log2 ar x"
    by (simp_all add: arith_ok_def)
  from assms(2) have "0 \<le> real_of_int b / 365" by simp
  from mono [OF this] have "0 \<le> js_div ar (real_of_int b) 365"
    by (simp add: js_div_def zero)
  then have "2 \<le> 2 + js_div ar (real_of_int b) 365" by simp
  from mono [OF this] have "2 \<le> js_add ar 2 (js_div ar (real_of_int b) 365)"
    by (simp add: js_add_def two)
  from lg [OF this]
  have "0 \<le> Math_log2 ar (js_add ar 2 (js_div ar (real_of_int b) 365)) * 100" by simp
  from mono [OF this] show ?thesis by (simp add: js_mul_def zero)
qed

lemma round_half_away_nonneg: "0 \<le> x \<Longrightarrow> round_half_away_from_zero x = Math_round x"
  by (simp add: round_half_away_from_zero_def Math_round_def)

lemma composer_streak_bonus_spec:
  "arith_ok ar \<Longrightarrow> composer_streak_bonus ar b = spec_streak_bonus ar b"
  by (simp add: composer_streak_bonus_def spec_streak_bonus_def round_half_away_nonneg
      bonus_argument_nonneg)

lemma reconciler_newBonus_spec:
  "arith_ok ar \<Longrightarrow> reconciler_newBonus ar b = spec_streak_bonus ar b"
  by (simp add: reconciler_newBonus_def spec_streak_bonus_def round_half_away_nonneg
      bonus_argument_nonneg)

lemma reconciler_newBonus_composer: "reconciler_newBonus ar b = composer_streak_bonus ar b"
  by (simp add: reconciler_newBonus_def composer_streak_bonus_def)

lemma composed_columns_inputs:
  "habit_score_component (fst (composed_columns ar d s)) = js_mul ar (sumSql ar d s) 100"
  "task_score_component (fst (composed_columns ar d s)) = js_mul ar (task_ratio ar d s) 100"
  "time_score_component (fst (composed_columns ar d s)) = time_points ar d s"
  "is_manually_marked_rest_day (fst (composed_columns ar d s))
     = (if spec_rest_day d s then 1 else 0)"
  by (simp_all add: composed_columns_def Let_def)

lemma composed_columns_spec:
  "snd (composed_columns ar d s) =
     fst (spec_streak_transition (spec_prev_streak d s)
            (spec_base ar (fst (composed_columns ar d s))) (spec_rest_day d s))"
  "streak_bonus_component (fst (composed_columns ar d s)) =
     composer_streak_bonus ar
       (snd (spec_streak_transition (spec_prev_streak d s)
               (spec_base ar (fst (composed_columns ar d s))) (spec_rest_day d s)))"
  by (simp_all add: composed_columns_def Let_def spec_base_def composer_streak_logic_spec)

lemma day_outcome_spec:
  "day_outcome ar c r s =
     spec_streak_transition (spec_prev_streak c s) (spec_base ar r) (is_manually_marked_rest_day r = 1)"
  by (simp add: day_outcome_def spec_base_def reconciler_streak_logic_spec)

lemma composer_stores:
  "\<exists>x s' r'. recalculateDailyScore ar no_faults d s = (Inr (d, x), s')
     \<and> habit_score_component x = js_mul ar (sumSql ar d s) 100
     \<and> task_score_component x = js_mul ar (task_ratio ar d s) 100
     \<and> time_score_component x = time_points ar d s
     \<and> is_manually_marked_rest_day x = (if spec_rest_day d s then 1 else 0)
     \<and> map_of (StreakData s') d =
         Some (fst (spec_streak_transition (spec_prev_streak d s) (spec_base ar x)
                      (spec_rest_day d s)))
     \<and> map_of (DailyScores s') d = Some r'
     \<and> streak_bonus_component r' = streak_bonus_component x
     \<and> streak_bonus_component x =
         composer_streak_bonus ar
           (snd (spec_streak_transition (spec_prev_streak d s) (spec_base ar x)
                   (spec_rest_day d s)))"
  using composed_columns_spec [of ar d s] composed_columns_inputs [of ar d s]
  by (simp add: recalculateDailyScore_no_faults streakDataSql_def dailyScoreSql_lookup
      update_conv')

lemma reconciler_stores:
  assumes "max_date (DailyScores s) = Some lastDay" and "start \<le> y" and "y \<le> lastDay"
    and "map_of (DailyScores s) y = Some r"
  shows "\<exists>r'. map_of (DailyScores (snd (recalculateStreaksForward ar no_faults start s))) y = Some r'
     \<and> map_of (StreakData (snd (recalculateStreaksForward ar no_faults start s))) y =
         Some (fst (spec_streak_transition
                      (spec_prev_streak y (snd (recalculateStreaksForward ar no_faults start s)))
                      (spec_base ar r) (is_manually_marked_rest_day r = 1)))
     \<and> streak_bonus_component r' =
         composer_streak_bonus ar
           (snd (spec_streak_transition
                   (spec_prev_streak y (snd (recalculateStreaksForward ar no_faults start s)))
                   (spec_base ar r) (is_manually_marked_rest_day r = 1)))"
proof -
  let ?s' = "snd (recalculateStreaksForward ar no_faults start s)"
  have none: "\<forall>z. start \<le> z \<and> z < start \<longrightarrow> day_settled ar z s" by auto
  from assms have "day_settled ar y (snd (streakForward_loop ar no_faults start lastDay s))"
    by (intro loop_settles [OF none]) simp_all
  with assms(1) have settled: "day_settled ar y ?s'"
    by (simp add: recalculateStreaksForward_no_faults)
  from recalculateStreaksForward_frame [of s ar no_faults start] assms(4)
  have "rel_option same_inputs (Some r) (map_of (DailyScores ?s') y)"
    by (simp add: score_frame_def) (metis assms(4))
  then obtain r' where r': "map_of (DailyScores ?s') y = Some r'" and si: "same_inputs r r'"
    by (cases "map_of (DailyScores ?s') y") simp_all
  from si have eq: "spec_base ar r' = spec_base ar r"
    "is_manually_marked_rest_day r' = is_manually_marked_rest_day r"
    by (simp_all add: same_inputs_def spec_base_def)
  from settled r' eq show ?thesis
    by (simp add: day_settled_def day_outcome_spec reconciler_newBonus_composer)
qed

subsection \<open>The bonus of the first two days of a streak\<close>

text \<open>
  \<open>log 2 (2 + 1 / 365)\<close> and \<open>log 2 (2 + 2 / 365)\<close> lie between 1 and 1.005, so the
  bonus of a streak of one day and of two days is \<open>round 100.198 / 100 = 1\<close> and
  \<open>round 100.395 / 100 = 1\<close>.
\<close>

lemma power_200: "((a ^ 8) ^ 5) ^ 5 = (a::real) ^ 200"
  by (simp add: power_mult [symmetric])

lemma pow_bound: "(731 / 730 :: real) ^ 200 < 2"
proof -
  have a: "(731 / 730 :: real) ^ 8 < 253 / 250" by (simp add: power_divide)
  have "((731 / 730 :: real) ^ 8) ^ 5 < (253 / 250) ^ 5"
    by (rule power_strict_mono [OF a]) simp_all
  also have "(253 / 250 :: real) ^ 5 < 2123 / 2000" by (simp add: power_divide)
  finally have b: "((731 / 730 :: real) ^ 8) ^ 5 < 2123 / 2000" .
  have "(((731 / 730 :: real) ^ 8) ^ 5) ^ 5 < (2123 / 2000) ^ 5"
    by (rule power_strict_mono [OF b]) simp_all
  also have "(2123 / 2000 :: real) ^ 5 < 2" by (simp add: power_divide)
  finally show ?thesis unfolding power_200 .
qed

lemma log2_first_day:
  "1 \<le> log 2 (731 / 365) \<and> log 2 (731 / 365) * 200 < 201"
proof
  have "log 2 2 \<le> log 2 (731 / 365)" by (subst log_le_cancel_iff) simp_all
  then show "1 \<le> log 2 (731 / 365)" by simp
next
  have "log 2 ((731 / 730) ^ 200) < log 2 2"
    using pow_bound by (subst log_less_cancel_iff) simp_all
  then have small: "200 * log 2 (731 / 730) < 1"
    by (simp only: log_nat_power [of "731 / 730" 2 200]) simp
  have "log 2 (731 / 365) = log 2 (2 * (731 / 730))" by simp
  also have "\<dots> = log 2 2 + log 2 (731 / 730)" by (rule log_mult_pos) simp_all
  finally have "log 2 (731 / 365) = 1 + log 2 (731 / 730)" by simp
  with small show "log 2 (731 / 365) * 200 < 201" by simp
qed

lemma round_first_day: "\<lfloor>log 2 (731 / 365) * 100 + 1 / 2\<rfloor> = 100"
proof -
  from log2_first_day have "100 \<le> log 2 (731 / 365) * 100 + 1 / 2"
    and "log 2 (731 / 365) * 100 + 1 / 2 < 100 + 1" by linarith+
  then show ?thesis by (simp add: floor_unique)
qed

lemma bonus_first_day:
  "composer_streak_bonus exact_arith 1 = 1" "reconciler_newBonus exact_arith 1 = 1"
  by (simp_all add: composer_streak_bonus_def reconciler_newBonus_def Math_round_def
      exact_arith_simps round_first_day)

lemma pow_bound_2: "(366 / 365 :: real) ^ 200 < 2"
proof -
  have a: "(366 / 365 :: real) ^ 8 < 5111 / 5000" by (simp add: power_divide)
  have "((366 / 365 :: real) ^ 8) ^ 5 < (5111 / 5000) ^ 5"
    by (rule power_strict_mono [OF a]) simp_all
  also have "(5111 / 5000 :: real) ^ 5 < 11161 / 10000" by (simp add: power_divide)
  finally have b: "((366 / 365 :: real) ^ 8) ^ 5 < 11161 / 10000" .
  have "(((366 / 365 :: real) ^ 8) ^ 5) ^ 5 < (11161 / 10000) ^ 5"
    by (rule power_strict_mono [OF b]) simp_all
  also have "(11161 / 10000 :: real) ^ 5 < 2" by (simp add: power_divide)
  finally show ?thesis unfolding power_200 .
qed

lemma log2_second_day:
  "1 \<le> log 2 (732 / 365) \<and> log 2 (732 / 365) * 200 < 201"
proof
  have "log 2 2 \<le> log 2 (732 / 365)" by (subst log_le_cancel_iff) simp_all
  then show "1 \<le> log 2 (732 / 365)" by simp
next
  have "log 2 ((366 / 365) ^ 200) < log 2 2"
    using pow_bound_2 by (subst log_less_cancel_iff) simp_all
  then have small: "200 * log 2 (366 / 365) < 1"
    by (simp only: log_nat_power [of "366 / 365" 2 200]) simp
  have "log 2 (732 / 365) = log 2 (2 * (366 / 365))" by simp
  also have "\<dots> = log 2 2 + log 2 (366 / 365)" by (rule log_mult_pos) simp_all
  finally have "log 2 (732 / 365) = 1 + log 2 (366 / 365)" by simp
  with small show "log 2 (732 / 365) * 200 < 201" by simp
qed

lemma round_second_day: "\<lfloor>log 2 (732 / 365) * 100 + 1 / 2\<rfloor> = 100"
proof -
  from log2_second_day have "100 \<le> log 2 (732 / 365) * 100 + 1 / 2"
    and "log 2 (732 / 365) * 100 + 1 / 2 < 100 + 1" by linarith+
  then show ?thesis by (simp add: floor_unique)
qed

lemma bonus_second_day:
  "composer_streak_bonus exact_arith 2 = 1" "reconciler_newBonus exact_arith 2 = 1"
  by (simp_all add: composer_streak_bonus_def reconciler_newBonus_def Math_round_def
      exact_arith_simps round_second_day)

subsection \<open>Claim C10: witness\<close>

text \<open>
  Witness of \<open>rescoring_leaves_notes_and_inputs\<close>: day 0 carries the note \<open>rest\<close>; the
  theorem is used on it, for both operations.
\<close>

theorem rescoring_leaves_notes_and_inputs_witness:
  "map_of (DailyScores noted_db) 0 = Some (default_row\<lparr>notes_column := Some ''rest''\<rparr>)
   \<and> (\<exists>r'. map_of (DailyScores (snd (recalculateDailyScore exact_arith no_faults 0 noted_db))) 0 = Some r'
         \<and> notes_column r' = Some ''rest'')
   \<and> (\<exists>r'. map_of (DailyScores (snd (recalculateStreaksForward exact_arith no_faults 0 noted_db))) 0 = Some r'
         \<and> habit_score_component r' = 0 \<and> task_score_component r' = 0
         \<and> time_score_component r' = 0 \<and> is_manually_marked_rest_day r' = 0
         \<and> notes_column r' = Some ''rest'')"
proof -
  have h: "map_of (DailyScores noted_db) 0 = Some (default_row\<lparr>notes_column := Some ''rest''\<rparr>)"
    by (simp add: noted_db_def empty_db_def)
  from rescoring_leaves_notes_and_inputs
         [OF h, of exact_arith no_faults 0 0]
  show ?thesis using h by (simp add: default_row_def)
qed

subsection \<open>Claim C1: the streak transition in both paths\<close>

text \<open>
  C1. \<open>recalculateDailyScore\<close> and \<open>recalculateStreaksForward\<close> apply the same streak
  transition, the rule of the specification: on a rest day the stored streak and the bonus
  basis are the previous streak; otherwise, with a base score of at least 60 (60 itself
  counts), both are the previous streak plus one; otherwise both are 0. This holds

  \<^item> for the two pieces of code that compute the pair, on every rest-day flag, base score
    and previous streak;
  \<^item> for \<open>recalculateDailyScore\<close>: the components it returns are the results of the three
    calculators, scaled (habit and task by 100), the flag it returns is the stored flag of
    the date (false without a record), and the streak it stores for the date is the rule's,
    for the streak stored for the previous day (0 if none), the base score of these
    components computed in floating point, and the stored flag;
  \<^item> for \<open>recalculateStreaksForward\<close>: the streak a run leaves on a date of its range
    that has a DailyScoreRecord is the rule's, for the streak stored for the previous day
    when the run ends, the base score of the record's stored components computed in
    floating point, and the record's flag.

  The base score is compared with 60 as the double it is: the theorem holds for every
  rounding function, so for the one of the 64-bit format too.
\<close>

theorem streak_transition_in_both_paths:
  "composer_streak_logic isRestDay baseScore prevStreak
     = spec_streak_transition prevStreak baseScore isRestDay
   \<and> reconciler_streak_logic isRestDay baseScore prevStreak
     = spec_streak_transition prevStreak baseScore isRestDay
   \<and> (\<exists>habitRaw taskRaw timeRaw x s'.
         calculateHabitScore ar no_faults d s = Inr habitRaw
         \<and> calculateTaskScore ar no_faults d s = Inr taskRaw
         \<and> calculateTimeScore ar no_faults d s = Inr timeRaw
         \<and> recalculateDailyScore ar no_faults d s = (Inr (d, x), s')
         \<and> habit_score_component x = js_mul ar habitRaw 100
         \<and> task_score_component x = js_mul ar taskRaw 100
         \<and> time_score_component x = timeRaw
         \<and> is_manually_marked_rest_day x = (if spec_rest_day d s then 1 else 0)
         \<and> map_of (StreakData s') d =
             Some (fst (spec_streak_transition (spec_prev_streak d s) (spec_base ar x)
                          (spec_rest_day d s))))
   \<and> (max_date (DailyScores s) = Some lastDay \<and> start \<le> y \<and> y \<le> lastDay
        \<and> map_of (DailyScores s) y = Some r \<longrightarrow>
        map_of (StreakData (snd (recalculateStreaksForward ar no_faults start s))) y =
          Some (fst (spec_streak_transition
                       (spec_prev_streak y (snd (recalculateStreaksForward ar no_faults start s)))
                       (spec_base ar r) (is_manually_marked_rest_day r = 1))))"
proof (intro conjI impI)
  show "composer_streak_logic isRestDay baseScore prevStreak
          = spec_streak_transition prevStreak baseScore isRestDay"
    by (rule composer_streak_logic_spec)
  show "reconciler_streak_logic isRestDay baseScore prevStreak
          = spec_streak_transition prevStreak baseScore isRestDay"
    by (rule reconciler_streak_logic_spec)
  from composer_stores [of ar d s] obtain x s' where
    run: "recalculateDailyScore ar no_faults d s = (Inr (d, x), s')"
    and inputs: "habit_score_component x = js_mul ar (sumSql ar d s) 100"
      "task_score_component x = js_mul ar (task_ratio ar d s) 100"
      "time_score_component x = time_points ar d s"
      "is_manually_marked_rest_day x = (if spec_rest_day d s then 1 else 0)"
    and streak: "map_of (StreakData s') d =
         Some (fst (spec_streak_transition (spec_prev_streak d s) (spec_base ar x)
                      (spec_rest_day d s)))"
    by blast
  show "\<exists>habitRaw taskRaw timeRaw x s'.
         calculateHabitScore ar no_faults d s = Inr habitRaw
         \<and> calculateTaskScore ar no_faults d s = Inr taskRaw
         \<and> calculateTimeScore ar no_faults d s = Inr timeRaw
         \<and> recalculateDailyScore ar no_faults d s = (Inr (d, x), s')
         \<and> habit_score_component x = js_mul ar habitRaw 100
         \<and> task_score_component x = js_mul ar taskRaw 100
         \<and> time_score_component x = timeRaw
         \<and> is_manually_marked_rest_day x = (if spec_rest_day d s then 1 else 0)
         \<and> map_of (StreakData s') d =
             Some (fst (spec_streak_transition (spec_prev_streak d s) (spec_base ar x)
                          (spec_rest_day d s)))"
    apply (rule exI [of _ "sumSql ar d s"])
    apply (rule exI [of _ "task_ratio ar d s"])
    apply (rule exI [of _ "time_points ar d s"])
    apply (rule exI [of _ x])
    apply (rule exI [of _ s'])
    using run inputs streak
    apply (simp add: calculateHabitScore_no_faults calculateTaskScore_no_faults
        calculateTimeScore_no_faults)
    done
next
  assume "max_date (DailyScores s) = Some lastDay \<and> start \<le> y \<and> y \<le> lastDay
        \<and> map_of (DailyScores s) y = Some r"
  then have "max_date (DailyScores s) = Some lastDay" "start \<le> y" "y \<le> lastDay"
    "map_of (DailyScores s) y = Some r" by simp_all
  from reconciler_stores [OF this]
  show "map_of (StreakData (snd (recalculateStreaksForward ar no_faults start s))) y =
          Some (fst (spec_streak_transition
                       (spec_prev_streak y (snd (recalculateStreaksForward ar no_faults start s)))
                       (spec_base ar r) (is_manually_marked_rest_day r = 1)))"
    by blast
qed

text \<open>
  Witness: a base score of exactly 60 after a streak of 3 gives the streak 4 in both pieces
  of code; and the theorem is used on day 2 of the two-day streak database.
\<close>

theorem streak_transition_in_both_paths_witness:
  "composer_streak_logic False 60 3 = (4, 4)
   \<and> reconciler_streak_logic False 60 3 = (4, 4)
   \<and> max_date (DailyScores streak_db) = Some 2
   \<and> map_of (DailyScores streak_db) 2 = Some streak_row
   \<and> map_of (StreakData (snd (recalculateStreaksForward exact_arith no_faults 1 streak_db))) 2 =
       Some (fst (spec_streak_transition
                    (spec_prev_streak 2
                       (snd (recalculateStreaksForward exact_arith no_faults 1 streak_db)))
                    90 False))"
proof -
  have h: "max_date (DailyScores streak_db) = Some 2 \<and> (1::int) \<le> 2 \<and> (2::int) \<le> 2
        \<and> map_of (DailyScores streak_db) 2 = Some streak_row"
    by (simp add: streak_db_def max_date_def)
  have b: "spec_base exact_arith streak_row = 90"
    "(is_manually_marked_rest_day streak_row = 1) = False"
    by (simp_all add: spec_base_def streak_row_def exact_arith_simps)
  have t: "spec_streak_transition 3 60 False = (4, 4)"
    by (simp add: spec_streak_transition_def)
  from streak_transition_in_both_paths
         [where isRestDay = False and baseScore = 60 and prevStreak = 3 and ar = exact_arith
            and d = 1 and s = streak_db and lastDay = 2 and start = 1 and y = 2
            and r = streak_row] h
  show ?thesis unfolding b t by blast
qed

subsection \<open>Claim C6: the streak bonus in both paths\<close>

text \<open>
  C6. In both operations the streak bonus of a positive bonus basis \<open>b\<close> is
  \<open>round (log2 (2 + b / 365) * 100) / 100\<close>, rounded half away from zero, and the bonus
  of the basis 0 is 0 (\<open>spec_streak_bonus\<close>). This holds

  \<^item> for the two pieces of code that compute the bonus, on every basis;
  \<^item> for \<open>recalculateDailyScore\<close>: the bonus it stores and returns is the one of the
    basis that the transition rule gives for the streak stored for the previous day, the
    base score of the components it returns (the scaled results of the three calculators)
    and the stored flag of the date;
  \<^item> for \<open>recalculateStreaksForward\<close>: the bonus a run leaves on a date of its range
    that has a DailyScoreRecord is the one of the basis that the rule gives for the streak
    stored for the previous day when the run ends, the base score of the record's stored
    components and the record's flag.

  \<open>Math.round\<close> rounds a half up; the two roundings agree on the values of the formula
  because these are not negative, which is where the theorem needs \<open>arith_ok\<close>:
  rounding to a double is monotone and leaves 0 and 2 as they are, and \<open>Math.log2\<close> is
  not negative from 2 on.
\<close>

theorem streak_bonus_in_both_paths:
  "arith_ok ar \<Longrightarrow>
   composer_streak_bonus ar bonusBasis = spec_streak_bonus ar bonusBasis
   \<and> reconciler_newBonus ar bonusBasis = spec_streak_bonus ar bonusBasis
   \<and> (\<exists>habitRaw taskRaw timeRaw x s' r'.
         calculateHabitScore ar no_faults d s = Inr habitRaw
         \<and> calculateTaskScore ar no_faults d s = Inr taskRaw
         \<and> calculateTimeScore ar no_faults d s = Inr timeRaw
         \<and> recalculateDailyScore ar no_faults d s = (Inr (d, x), s')
         \<and> habit_score_component x = js_mul ar habitRaw 100
         \<and> task_score_component x = js_mul ar taskRaw 100
         \<and> time_score_component x = timeRaw
         \<and> is_manually_marked_rest_day x = (if spec_rest_day d s then 1 else 0)
         \<and> map_of (DailyScores s') d = Some r'
         \<and> streak_bonus_component r' =
             spec_streak_bonus ar
               (snd (spec_streak_transition (spec_prev_streak d s) (spec_base ar x)
                       (spec_rest_day d s)))
         \<and> streak_bonus_component x = streak_bonus_component r')
   \<and> (max_date (DailyScores s) = Some lastDay \<and> start \<le> y \<and> y \<le> lastDay
        \<and> map_of (DailyScores s) y = Some r \<longrightarrow>
        (\<exists>r'. map_of (DailyScores (snd (recalculateStreaksForward ar no_faults start s))) y = Some r'
           \<and> streak_bonus_component r' =
               spec_streak_bonus ar
                 (snd (spec_streak_transition
                         (spec_prev_streak y (snd (recalculateStreaksForward ar no_faults start s)))
                         (spec_base ar r) (is_manually_marked_rest_day r = 1)))))"
proof (intro conjI impI)
  assume ok: "arith_ok ar"
  show "composer_streak_bonus ar bonusBasis = spec_streak_bonus ar bonusBasis"
    using ok by (rule composer_streak_bonus_spec)
  show "reconciler_newBonus ar bonusBasis = spec_streak_bonus ar bonusBasis"
    using ok by (rule reconciler_newBonus_spec)
  from composer_stores [of ar d s] obtain x s' r' where
    run: "recalculateDailyScore ar no_faults d s = (Inr (d, x), s')"
    and inputs: "habit_score_component x = js_mul ar (sumSql ar d s) 100"
      "task_score_component x = js_mul ar (task_ratio ar d s) 100"
      "time_score_component x = time_points ar d s"
      "is_manually_marked_rest_day x = (if spec_rest_day d s then 1 else 0)"
    and row: "map_of (DailyScores s') d = Some r'"
      "streak_bonus_component r' = streak_bonus_component x"
    and bonus: "streak_bonus_component x =
         composer_streak_bonus ar
           (snd (spec_streak_transition (spec_prev_streak d s) (spec_base ar x)
                   (spec_rest_day d s)))"
    by blast
  show "\<exists>habitRaw taskRaw timeRaw x s' r'.
         calculateHabitScore ar no_faults d s = Inr habitRaw
         \<and> calculateTaskScore ar no_faults d s = Inr taskRaw
         \<and> calculateTimeScore ar no_faults d s = Inr timeRaw
         \<and> recalculateDailyScore ar no_faults d s = (Inr (d, x), s')
         \<and> habit_score_component x = js_mul ar habitRaw 100
         \<and> task_score_component x = js_mul ar taskRaw 100
         \<and> time_score_component x = timeRaw
         \<and> is_manually_marked_rest_day x = (if spec_rest_day d s then 1 else 0)
         \<and> map_of (DailyScores s') d = Some r'
         \<and> streak_bonus_component r' =
             spec_streak_bonus ar
               (snd (spec_streak_transition (spec_prev_streak d s) (spec_base ar x)
                       (spec_rest_day d s)))
         \<and> streak_bonus_component x = streak_bonus_component r'"
    apply (rule exI [of _ "sumSql ar d s"])
    apply (rule exI [of _ "task_ratio ar d s"])
    apply (rule exI [of _ "time_points ar d s"])
    apply (rule exI [of _ x])
    apply (rule exI [of _ s'])
    apply (rule exI [of _ r'])
    using run inputs row bonus composer_streak_bonus_spec [OF ok]
    apply (simp add: calculateHabitScore_no_faults calculateTaskScore_no_faults
        calculateTimeScore_no_faults)
    done
next
  assume ok: "arith_ok ar"
  assume "max_date (DailyScores s) = Some lastDay \<and> start \<le> y \<and> y \<le> lastDay
        \<and> map_of (DailyScores s) y = Some r"
  then have "max_date (DailyScores s) = Some lastDay" "start \<le> y" "y \<le> lastDay"
    "map_of (DailyScores s) y = Some r" by simp_all
  from reconciler_stores [OF this, of ar]
  show "\<exists>r'. map_of (DailyScores (snd (recalculateStreaksForward ar no_faults start s))) y = Some r'
           \<and> streak_bonus_component r' =
               spec_streak_bonus ar
                 (snd (spec_streak_transition
                         (spec_prev_streak y (snd (recalculateStreaksForward ar no_faults start s)))
                         (spec_base ar r) (is_manually_marked_rest_day r = 1)))"
    unfolding composer_streak_bonus_spec [OF ok] by blast
qed

text \<open>
  Witness: the arithmetic without rounding satisfies \<open>arith_ok\<close>; in it the bonus of the
  basis 1 is 1 in both pieces of code and in the specification; and the theorem is used on
  day 2 of the two-day streak database.
\<close>

theorem streak_bonus_in_both_paths_witness:
  "arith_ok exact_arith
   \<and> composer_streak_bonus exact_arith 1 = 1 \<and> reconciler_newBonus exact_arith 1 = 1
   \<and> spec_streak_bonus exact_arith 1 = 1
   \<and> max_date (DailyScores streak_db) = Some 2
   \<and> map_of (DailyScores streak_db) 2 = Some streak_row
   \<and> (\<exists>r'. map_of (DailyScores (snd (recalculateStreaksForward exact_arith no_faults 1 streak_db))) 2
              = Some r'
         \<and> streak_bonus_component r' =
             spec_streak_bonus exact_arith
               (snd (spec_streak_transition
                       (spec_prev_streak 2
                          (snd (recalculateStreaksForward exact_arith no_faults 1 streak_db)))
                       90 False)))"
proof -
  have ok: "arith_ok exact_arith"
    by (simp add: arith_ok_def exact_arith_simps)
  have h: "max_date (DailyScores streak_db) = Some 2 \<and> (1::int) \<le> 2 \<and> (2::int) \<le> 2
        \<and> map_of (DailyScores streak_db) 2 = Some streak_row"
    by (simp add: streak_db_def max_date_def)
  have b: "spec_base exact_arith streak_row = 90"
    "(is_manually_marked_rest_day streak_row = 1) = False"
    by (simp_all add: spec_base_def streak_row_def exact_arith_simps)
  from streak_bonus_in_both_paths
         [OF ok, where bonusBasis = 1 and d = 1 and s = streak_db and lastDay = 2
            and start = 1 and y = 2 and r = streak_row] h ok bonus_first_day
  show ?thesis unfolding b by simp
qed

subsection \<open>Claim C5: the rest-day toggle and the forward pass\<close>

text \<open>
  The two-day streak database is what \<open>recalculateDailyScore\<close> produces for day 1 and
  then day 2 from its tasks and habit completions.
\<close>

lemma streak_db_composed:
  "same_tables
     (snd (recalculateDailyScore exact_arith no_faults 2
             (snd (recalculateDailyScore exact_arith no_faults 1
                     (streak_db\<lparr>DailyScores := [], StreakData := []\<rparr>)))))
     streak_db"
  by (simp add: same_tables_def recalculateDailyScore_no_faults composed_columns_def
      streak_db_def streak_row_def completedSql_def assignedSql_def sumSql_def minutes_of_def
      spec_prev_streak_def spec_rest_day_def task_ratio_def time_points_def
      composer_streak_logic_def bonus_first_day bonus_second_day
      dailyScoreSql_def streakDataSql_def default_row_def Let_def exact_arith_simps)

lemmas route_defs =
  put_daily_status_def runDb_no_faults restDaySql_def recalculateDailyScore_no_faults
  composed_columns_def streak_db_def streak_row_def completedSql_def assignedSql_def sumSql_def
  minutes_of_def spec_prev_streak_def spec_rest_day_def task_ratio_def time_points_def
  composer_streak_logic_def composer_streak_bonus_def dailyScoreSql_def streakDataSql_def Let_def

text \<open>
  C5. After a mutation that can change the base score or the streak of a past day (habit
  uncompletion, rest-day toggle, task update) the forward pass runs from the day after.
  The route of the rest-day toggle rescores the day and stops there. On the two-day streak
  database, marking day 1 as a rest day executes the three statements of the journal below
  and nothing else: the streak of day 1 becomes 0 and the streak of day 2 stays 2, where
  the transition rule gives 1; a forward pass from day 2 would have stored 1.
\<close>

theorem rest_day_toggle_leaves_stale_streak:
  "fst (put_daily_status exact_arith no_faults 1 True streak_db) =
     Inr (1, \<lparr>habit_score_component = 100, task_score_component = 100,
              time_score_component = 0, streak_bonus_component = 0, total_daily_score = 90,
              is_manually_marked_rest_day = 1\<rparr>)
   \<and> journal (snd (put_daily_status exact_arith no_faults 1 True streak_db))
       = [UpsertRestDay 1, UpsertDailyScore 1, UpsertStreak 1]
   \<and> StreakData (snd (put_daily_status exact_arith no_faults 1 True streak_db)) = [(1, 0), (2, 2)]
   \<and> map_of (DailyScores (snd (put_daily_status exact_arith no_faults 1 True streak_db))) 2
       = Some streak_row
   \<and> fst (spec_streak_transition 0 (spec_base exact_arith streak_row) False) = 1
   \<and> StreakData (snd (recalculateStreaksForward exact_arith no_faults 2
                         (snd (put_daily_status exact_arith no_faults 1 True streak_db))))
       = [(1, 0), (2, 1)]"
  by (simp add: route_defs eval_defs spec_streak_transition_def spec_base_def bonus_first_day)

end
